theory Spec2Isabelle
  imports Main "HOL-Library.AList" "HOL-Library.Multiset"
begin

section \<open>Python values and errors\<close>

text \<open>
  The exceptions that the methods of \<^verbatim>\<open>CohpyIntro.py\<close> can end with. \<open>Exception\<close> is the
  one the program raises itself (in \<^verbatim>\<open>formatTable\<close>); the others are raised by the Python
  runtime and by the \<^verbatim>\<open>sqlite3\<close> module under the calls the program makes.
\<close>

datatype error =
    Exception string
  | TypeError
  | IndexError
  | AttributeError
  | ProgrammingError
  | OperationalError string
  | OverflowError

text \<open>The cell values a table row carries: \<^verbatim>\<open>None\<close>, an integer or a string.\<close>

datatype pyval = PyNone | PyInt int | PyStr string

fun str_nat :: "nat \<Rightarrow> string" where
  "str_nat n = (if n < 10 then [''0123456789'' ! n]
                else str_nat (n div 10) @ [''0123456789'' ! (n mod 10)])"

declare str_nat.simps [simp del]

definition str_int :: "int \<Rightarrow> string" where
  "str_int i = (if i < 0 then CHR ''-'' # str_nat (nat (- i)) else str_nat (nat i))"

fun str :: "pyval \<Rightarrow> string" where
  "str PyNone = ''None''"
| "str (PyInt i) = str_int i"
| "str (PyStr s) = s"

definition ljust :: "string \<Rightarrow> int \<Rightarrow> string" where
  "ljust s w = s @ replicate (nat (w - int (length s))) CHR '' ''"

fun join :: "string \<Rightarrow> string list \<Rightarrow> string" where
  "join sep [] = []"
| "join sep [x] = x"
| "join sep (x # y # ys) = x @ sep @ join sep (y # ys)"

section \<open>formatTable\<close>

record ColumnFormat =
  name :: string
  width :: int

text \<open>
  The keyword arguments of \<^verbatim>\<open>formatTable\<close>: \<open>None\<close> is a key absent from
  \<^verbatim>\<open>kwargs\<close>, for which \<^verbatim>\<open>kwargs.get\<close> gives the default.
\<close>

record kwargs =
  kw_colsep :: "string option"
  kw_defaultColWidth :: "int option"

definition get_colsep :: "kwargs \<Rightarrow> string" where
  "get_colsep kw = (case kw_colsep kw of None \<Rightarrow> ''   '' | Some s \<Rightarrow> s)"

definition get_defaultColWidth :: "kwargs \<Rightarrow> int" where
  "get_defaultColWidth kw = (case kw_defaultColWidth kw of None \<Rightarrow> 20 | Some w \<Rightarrow> w)"

definition columnCount_of :: "ColumnFormat list option \<Rightarrow> int" where
  "columnCount_of columnFormats =
     (case columnFormats of
        None \<Rightarrow> - 1
      | Some cfs \<Rightarrow> (if int (length cfs) = 0 then - 1 else int (length cfs)))"

text \<open>
  The message of the exception raised at a row of the wrong width:
  \<^verbatim>\<open>'Row %d contains %d columns.  Expected %d columns' % (i, len(row), columnCount)\<close>.
\<close>

definition row_message :: "nat \<Rightarrow> nat \<Rightarrow> int \<Rightarrow> string" where
  "row_message i n columnCount =
     ''Row '' @ str_int (int i) @ '' contains '' @ str_int (int n)
       @ '' columns.  Expected '' @ str_int columnCount @ '' columns''"

text \<open>The two lines yielded before the first row: the loop over \<^verbatim>\<open>columnFormats\<close>.\<close>

definition headings :: "ColumnFormat list \<Rightarrow> string list" where
  "headings cfs = map (\<lambda>format. ljust (name format) (width format)) cfs"

definition underlines :: "ColumnFormat list \<Rightarrow> string list" where
  "underlines cfs = map (\<lambda>format. replicate (nat (width format)) CHR ''-'') cfs"

text \<open>
  The inner loop \<^verbatim>\<open>for j, column in enumerate(row)\<close>, from index \<open>j\<close> on. The read
  \<^verbatim>\<open>columnFormats[j]\<close> raises where the index is out of range.
\<close>

fun pieces :: "int \<Rightarrow> ColumnFormat list option \<Rightarrow> int \<Rightarrow> nat \<Rightarrow> pyval list \<Rightarrow> error + string list" where
  "pieces columnCount columnFormats defaultColWidth j [] = Inr []"
| "pieces columnCount columnFormats defaultColWidth j (column # row) =
     (if columnCount < 1 then
        (case pieces columnCount columnFormats defaultColWidth (Suc j) row of
           Inl e \<Rightarrow> Inl e
         | Inr ps \<Rightarrow> Inr (ljust (str column) defaultColWidth # ps))
      else
        (case columnFormats of
           None \<Rightarrow> Inl TypeError
         | Some cfs \<Rightarrow>
             (if j < length cfs then
                (case pieces columnCount columnFormats defaultColWidth (Suc j) row of
                   Inl e \<Rightarrow> Inl e
                 | Inr ps \<Rightarrow> Inr (ljust (str column) (width (cfs ! j)) # ps))
              else Inl IndexError)))"

text \<open>
  The generator's main loop \<^verbatim>\<open>for i, row in enumerate(rows)\<close>, from index \<open>i\<close> on. The
  result is the list of the lines yielded, in order, and the exception that ended the
  generator, if one did.
\<close>

fun formatTable_loop ::
  "string \<Rightarrow> int \<Rightarrow> ColumnFormat list option \<Rightarrow> int \<Rightarrow> nat \<Rightarrow> pyval list list
     \<Rightarrow> string list \<times> error option" where
  "formatTable_loop colsep defaultColWidth columnFormats columnCount i [] = ([], None)"
| "formatTable_loop colsep defaultColWidth columnFormats columnCount i (row # rows) =
     (if columnCount \<ge> 1 \<and> int (length row) \<noteq> columnCount then
        ([], Some (Exception (row_message i (length row) columnCount)))
      else
        (case (if i = 0 \<and> columnCount \<ge> 1 then
                 (case columnFormats of
                    None \<Rightarrow> Inl TypeError
                  | Some cfs \<Rightarrow> Inr [join colsep (headings cfs), join colsep (underlines cfs)])
               else Inr []) of
           Inl e \<Rightarrow> ([], Some e)
         | Inr header \<Rightarrow>
             (case pieces columnCount columnFormats defaultColWidth 0 row of
                Inl e \<Rightarrow> (header, Some e)
              | Inr ps \<Rightarrow>
                  (case formatTable_loop colsep defaultColWidth columnFormats columnCount (Suc i) rows of
                     (ls, e) \<Rightarrow> (header @ join colsep ps # ls, e)))))"

definition formatTable :: "pyval list list \<Rightarrow> ColumnFormat list option \<Rightarrow> kwargs \<Rightarrow> string list \<times> error option" where
  "formatTable rows columnFormats kw =
     formatTable_loop (get_colsep kw) (get_defaultColWidth kw) columnFormats
       (columnCount_of columnFormats) 0 rows"

section \<open>The store\<close>

text \<open>
  The program keeps its members in an SQLite file, through Python's \<^verbatim>\<open>sqlite3\<close> module.
  The engine is modelled as far as the statements of the program use it. A table is the
  list of its rows, each with its \<^verbatim>\<open>rowid\<close>; a database is its catalog, the tables by
  name; the file system gives the database stored under a path. The three columns of
  \<^verbatim>\<open>members\<close> hold a text or \<^verbatim>\<open>NULL\<close>.
\<close>

type_synonym row = "int \<times> string option \<times> string option \<times> string option"

type_synonym table = "row list"

type_synonym database = "(string \<times> table) list"

type_synonym filesystem = "(string \<times> database) list"

text \<open>
  A connection has the file to itself for the time of the session. \<open>db_file\<close> is the content
  committed to the file, \<open>pending\<close> the content as changed by the open transaction, if one
  is open. The \<^verbatim>\<open>sqlite3\<close> module opens a transaction before an \<^verbatim>\<open>INSERT\<close> or
  \<^verbatim>\<open>UPDATE\<close>, \<^verbatim>\<open>commit\<close> writes it to the file, and closing the connection drops what
  was not committed.
\<close>

record connection =
  db_file :: database
  pending :: "database option"
  is_open :: bool

definition view :: "connection \<Rightarrow> database" where
  "view c = (case pending c of None \<Rightarrow> db_file c | Some w \<Rightarrow> w)"

definition connect :: "filesystem \<Rightarrow> string \<Rightarrow> connection" where
  "connect fs path =
     \<lparr>db_file = (case map_of fs path of None \<Rightarrow> [] | Some db \<Rightarrow> db), pending = None, is_open = True\<rparr>"

definition commit :: "connection \<Rightarrow> error + connection" where
  "commit c =
     (if \<not> is_open c then Inl ProgrammingError
      else (case pending c of
              None \<Rightarrow> Inr c
            | Some w \<Rightarrow> Inr (c\<lparr>db_file := w, pending := None\<rparr>)))"

definition close :: "connection \<Rightarrow> connection" where
  "close c = c\<lparr>pending := None, is_open := False\<rparr>"

text \<open>
  SQLite keeps a rowid in a signed 64-bit integer, and the \<^verbatim>\<open>sqlite3\<close> module raises
  \<^verbatim>\<open>OverflowError\<close> when it is given a Python integer outside that range as a parameter.
\<close>

definition min_rowid :: int where
  "min_rowid = - 9223372036854775808"

definition max_rowid :: int where
  "max_rowid = 9223372036854775807"

definition sqlite_int :: "int \<Rightarrow> bool" where
  "sqlite_int k = (min_rowid \<le> k \<and> k \<le> max_rowid)"

text \<open>
  The rowid given to an inserted row: one more than the largest rowid of the table, 1 in
  an empty table. (At the largest rowid \<open>max_rowid\<close> the engine instead tries unused
  rowids at random; the properties below are about tables under that limit.)
\<close>

definition next_rowid :: "table \<Rightarrow> int" where
  "next_rowid t = (case map fst t of [] \<Rightarrow> 1 | k # ks \<Rightarrow> fold max ks k + 1)"

definition rowids_below_limit :: "table \<Rightarrow> bool" where
  "rowids_below_limit t = (\<forall>row \<in> set t. min_rowid \<le> fst row \<and> fst row < max_rowid)"

text \<open>
  The statements of the program, each as a function of the connection (and of the
  parameters bound to its \<^verbatim>\<open>?\<close> marks), giving the rows of the result and the connection
  after it.

  \<^verbatim>\<open>SELECT tbl_name FROM sqlite_master WHERE type = 'table' AND tbl_name = 'members'\<close>
\<close>

definition select_master :: "connection \<Rightarrow> error + string list \<times> connection" where
  "select_master c =
     (if \<not> is_open c then Inl ProgrammingError
      else Inr (filter (\<lambda>tbl_name. tbl_name = ''members'') (map fst (view c)), c))"

text \<open>
  \<^verbatim>\<open>CREATE TABLE members(first text, last text, introducedDate text)\<close>. Outside a
  transaction the new table is written to the file at once.
\<close>

definition create_members :: "connection \<Rightarrow> error + connection" where
  "create_members c =
     (if \<not> is_open c then Inl ProgrammingError
      else (case map_of (view c) ''members'' of
              Some t \<Rightarrow> Inl (OperationalError ''table members already exists'')
            | None \<Rightarrow>
                (case pending c of
                   None \<Rightarrow> Inr (c\<lparr>db_file := db_file c @ [(''members'', [])]\<rparr>)
                 | Some w \<Rightarrow> Inr (c\<lparr>pending := Some (w @ [(''members'', [])])\<rparr>))))"

text \<open>\<^verbatim>\<open>SELECT rowid, first, last, introducedDate FROM members ORDER BY rowid\<close>\<close>

definition select_members :: "connection \<Rightarrow> error + row list \<times> connection" where
  "select_members c =
     (if \<not> is_open c then Inl ProgrammingError
      else (case map_of (view c) ''members'' of
              None \<Rightarrow> Inl (OperationalError ''no such table: members'')
            | Some t \<Rightarrow> Inr (sort_key fst t, c)))"

text \<open>\<^verbatim>\<open>INSERT INTO members(first, last, introducedDate) VALUES(?, ?, ?)\<close>\<close>

definition insert_member ::
  "connection \<Rightarrow> string option \<Rightarrow> string option \<Rightarrow> string option \<Rightarrow> error + connection" where
  "insert_member c f l d =
     (if \<not> is_open c then Inl ProgrammingError
      else (case map_of (view c) ''members'' of
              None \<Rightarrow> Inl (OperationalError ''no such table: members'')
            | Some t \<Rightarrow>
                Inr (c\<lparr>pending :=
                  Some (AList.update ''members'' (t @ [(next_rowid t, f, l, d)]) (view c))\<rparr>)))"

text \<open>\<^verbatim>\<open>SELECT rowid, first, last, introducedDate FROM members WHERE rowid = ?\<close>\<close>

definition select_member :: "connection \<Rightarrow> int \<Rightarrow> error + row list \<times> connection" where
  "select_member c k =
     (if \<not> is_open c then Inl ProgrammingError
      else (case map_of (view c) ''members'' of
              None \<Rightarrow> Inl (OperationalError ''no such table: members'')
            | Some t \<Rightarrow>
                (if \<not> sqlite_int k then Inl OverflowError
                 else Inr (filter (\<lambda>row. fst row = k) t, c))))"

text \<open>
  \<^verbatim>\<open>UPDATE members SET first = ?, last = ?, introducedDate = ? WHERE rowid = ?\<close>. The last
  parameter may be \<^verbatim>\<open>None\<close>, bound as \<^verbatim>\<open>NULL\<close>, which no rowid equals.
\<close>

definition update_member ::
  "connection \<Rightarrow> string option \<Rightarrow> string option \<Rightarrow> string option \<Rightarrow> int option \<Rightarrow> error + connection" where
  "update_member c f l d k =
     (if \<not> is_open c then Inl ProgrammingError
      else (case map_of (view c) ''members'' of
              None \<Rightarrow> Inl (OperationalError ''no such table: members'')
            | Some t \<Rightarrow>
                (if (case k of None \<Rightarrow> False | Some i \<Rightarrow> \<not> sqlite_int i) then Inl OverflowError
                 else Inr (c\<lparr>pending :=
                   Some (AList.update ''members''
                     (map (\<lambda>row. if Some (fst row) = k then (fst row, f, l, d) else row) t)
                     (view c))\<rparr>))))"

section \<open>Member and Roster\<close>

record Member =
  first :: "string option"
  last_m :: "string option"
  rowid :: "int option"
  introducedDate :: "string option"

definition Member_init :: "string option \<Rightarrow> string option \<Rightarrow> Member" where
  "Member_init f l = \<lparr>first = f, last_m = l, rowid = None, introducedDate = None\<rparr>"

text \<open>
  A \<^verbatim>\<open>Roster\<close> object: \<open>conn\<close> is \<open>None\<close> until \<^verbatim>\<open>__enter__\<close> has connected (the cursor
  attribute does not exist before that either).
\<close>

record Roster =
  dbFilePath :: string
  conn :: "connection option"

definition Roster_init :: "string \<Rightarrow> Roster" where
  "Roster_init path = \<lparr>dbFilePath = path, conn = None\<rparr>"

definition Roster_createTables :: "Roster \<Rightarrow> error + Roster" where
  "Roster_createTables r =
     (case conn r of
        None \<Rightarrow> Inl AttributeError
      | Some c \<Rightarrow>
          (case select_master c of
             Inl e \<Rightarrow> Inl e
           | Inr (rows, c1) \<Rightarrow>
               (if length rows > 0 then Inr (r\<lparr>conn := Some c1\<rparr>)
                else (case create_members c1 of
                        Inl e \<Rightarrow> Inl e
                      | Inr c2 \<Rightarrow> Inr (r\<lparr>conn := Some c2\<rparr>)))))"

definition Roster_enter :: "filesystem \<Rightarrow> Roster \<Rightarrow> error + Roster" where
  "Roster_enter fs r = Roster_createTables (r\<lparr>conn := Some (connect fs (dbFilePath r))\<rparr>)"

definition Roster_exit :: "Roster \<Rightarrow> error + Roster" where
  "Roster_exit r =
     (case conn r of
        None \<Rightarrow> Inl AttributeError
      | Some c \<Rightarrow> Inr (r\<lparr>conn := Some (close c)\<rparr>))"

text \<open>The content of the disk, given what it was when the session began.\<close>

definition disk :: "filesystem \<Rightarrow> Roster \<Rightarrow> filesystem" where
  "disk fs r =
     (case conn r of
        None \<Rightarrow> fs
      | Some c \<Rightarrow> AList.update (dbFilePath r) (db_file c) fs)"

definition Roster_buildMember :: "row \<Rightarrow> Member" where
  "Roster_buildMember row =
     (case row of (row0, row1, row2, row3) \<Rightarrow>
        \<lparr>first = row1, last_m = row2, rowid = Some row0, introducedDate = row3\<rparr>)"

definition Roster_list :: "Roster \<Rightarrow> error + Member list \<times> Roster" where
  "Roster_list r =
     (case conn r of
        None \<Rightarrow> Inl AttributeError
      | Some c \<Rightarrow>
          (case select_members c of
             Inl e \<Rightarrow> Inl e
           | Inr (rows, c1) \<Rightarrow> Inr (map Roster_buildMember rows, r\<lparr>conn := Some c1\<rparr>)))"

text \<open>
  \<^verbatim>\<open>add\<close> and \<^verbatim>\<open>update\<close> have no \<^verbatim>\<open>return\<close> statement: the value of the call is
  \<^verbatim>\<open>None\<close>, the first component of the result. Neither assigns to the member it is given.
\<close>

definition Roster_add :: "Roster \<Rightarrow> Member \<Rightarrow> error + Member option \<times> Roster" where
  "Roster_add r member =
     (case conn r of
        None \<Rightarrow> Inl AttributeError
      | Some c \<Rightarrow>
          (case insert_member c (first member) (last_m member) (introducedDate member) of
             Inl e \<Rightarrow> Inl e
           | Inr c1 \<Rightarrow>
               (case commit c1 of
                  Inl e \<Rightarrow> Inl e
                | Inr c2 \<Rightarrow> Inr (None, r\<lparr>conn := Some c2\<rparr>))))"

definition Roster_get :: "Roster \<Rightarrow> int \<Rightarrow> error + Member option \<times> Roster" where
  "Roster_get r k =
     (case conn r of
        None \<Rightarrow> Inl AttributeError
      | Some c \<Rightarrow>
          (case select_member c k of
             Inl e \<Rightarrow> Inl e
           | Inr (rows, c1) \<Rightarrow>
               (if length rows = 0 then Inr (None, r\<lparr>conn := Some c1\<rparr>)
                else Inr (Some (Roster_buildMember (rows ! 0)), r\<lparr>conn := Some c1\<rparr>))))"

definition Roster_update :: "Roster \<Rightarrow> Member \<Rightarrow> error + Member option \<times> Roster" where
  "Roster_update r member =
     (case conn r of
        None \<Rightarrow> Inl AttributeError
      | Some c \<Rightarrow>
          (case update_member c (first member) (last_m member) (introducedDate member) (rowid member) of
             Inl e \<Rightarrow> Inl e
           | Inr c1 \<Rightarrow> Inr (None, r\<lparr>conn := Some c1\<rparr>)))"

text \<open>
  The line of one data row under column formats: every cell converted with \<open>str\<close>,
  left-justified to the width of its column, the cells joined by the separator.
\<close>

definition data_line :: "string \<Rightarrow> ColumnFormat list \<Rightarrow> pyval list \<Rightarrow> string" where
  "data_line colsep cfs row =
     join colsep (map2 (\<lambda>column format. ljust (str column) (width format)) row cfs)"

section \<open>Properties of formatTable\<close>

lemma ljust_length: "length (ljust s w) = max (length s) (nat w)"
  by (simp add: ljust_def)

lemma ljust_keeps: "take (length s) (ljust s w) = s"
  by (simp add: ljust_def)

lemma columnCount_nonempty: "cfs \<noteq> [] \<Longrightarrow> columnCount_of (Some cfs) = int (length cfs)"
  by (simp add: columnCount_of_def)

lemma pieces_formats:
  "columnCount \<ge> 1 \<Longrightarrow> j + length row = length cfs \<Longrightarrow>
     pieces columnCount (Some cfs) dw j row
       = Inr (map2 (\<lambda>column format. ljust (str column) (width format)) row (drop j cfs))"
proof (induction row arbitrary: j)
  case Nil
  then show ?case by simp
next
  case (Cons c row)
  from Cons.prems have lt: "j < length cfs" and nxt: "Suc j + length row = length cfs"
    by simp_all
  have d: "drop j cfs = cfs ! j # drop (Suc j) cfs"
    using lt by (simp add: Cons_nth_drop_Suc)
  show ?case
    using Cons.IH [OF Cons.prems(1) nxt] Cons.prems(1) lt by (simp add: d)
qed

lemma loop_well_formed:
  "cfs \<noteq> [] \<Longrightarrow> \<forall>row \<in> set rows. length row = length cfs \<Longrightarrow>
     formatTable_loop cs dw (Some cfs) (int (length cfs)) i rows
       = ((if i = 0 \<and> rows \<noteq> [] then [join cs (headings cfs), join cs (underlines cfs)] else [])
            @ map (data_line cs cfs) rows, None)"
proof (induction rows arbitrary: i)
  case Nil
  then show ?case by simp
next
  case (Cons row rows)
  have cc: "int (length cfs) \<ge> 1"
    using Cons.prems(1) by (cases cfs) simp_all
  have len: "length row = length cfs" and rest: "\<forall>row \<in> set rows. length row = length cfs"
    using Cons.prems(2) by simp_all
  have p: "pieces (int (length cfs)) (Some cfs) dw 0 row
             = Inr (map2 (\<lambda>column format. ljust (str column) (width format)) row cfs)"
    using pieces_formats [OF cc, of 0 row cfs dw] len by simp
  note ih = Cons.IH [OF Cons.prems(1) rest]
  show ?case
    using cc len by (simp add: p ih data_line_def)
qed

lemma loop_malformed:
  "cfs \<noteq> [] \<Longrightarrow> \<forall>row \<in> set pre. length row = length cfs \<Longrightarrow> length bad \<noteq> length cfs \<Longrightarrow>
     formatTable_loop cs dw (Some cfs) (int (length cfs)) i (pre @ bad # post)
       = ((if i = 0 \<and> pre \<noteq> [] then [join cs (headings cfs), join cs (underlines cfs)] else [])
            @ map (data_line cs cfs) pre,
          Some (Exception (row_message (i + length pre) (length bad) (int (length cfs)))))"
proof (induction pre arbitrary: i)
  case Nil
  have cc: "int (length cfs) \<ge> 1"
    using Nil.prems(1) by (cases cfs) simp_all
  show ?case
    using cc Nil.prems(3) by simp
next
  case (Cons row pre)
  have cc: "int (length cfs) \<ge> 1"
    using Cons.prems(1) by (cases cfs) simp_all
  have len: "length row = length cfs" and rest: "\<forall>row \<in> set pre. length row = length cfs"
    using Cons.prems(2) by simp_all
  have p: "pieces (int (length cfs)) (Some cfs) dw 0 row
             = Inr (map2 (\<lambda>column format. ljust (str column) (width format)) row cfs)"
    using pieces_formats [OF cc, of 0 row cfs dw] len by simp
  note ih = Cons.IH [OF Cons.prems(1) rest Cons.prems(3)]
  show ?case
    using cc len by (simp add: p ih data_line_def)
qed

text \<open>
  C8. Under a non-empty list of column formats, a row whose number of columns differs from
  the number of formats ends the generator with an exception whose message names the
  0-based position of that row, its number of columns and the expected number. The check
  is made at every row: the malformed row may stand at any position, after any number of
  well-formed rows. The lines yielded before the exception are exactly the lines of the
  well-formed rows before it (none at all when the malformed row is the first): no line is
  yielded for the malformed row.
\<close>

theorem formatTable_row_width_mismatch:
  assumes "cfs \<noteq> []"
    and "\<forall>row \<in> set pre. length row = length cfs"
    and "length bad \<noteq> length cfs"
  shows "formatTable (pre @ bad # post) (Some cfs) kw
           = (fst (formatTable pre (Some cfs) kw),
              Some (Exception (''Row '' @ str_int (int (length pre)) @ '' contains ''
                @ str_int (int (length bad)) @ '' columns.  Expected ''
                @ str_int (int (length cfs)) @ '' columns'')))
         \<and> snd (formatTable pre (Some cfs) kw) = None
         \<and> length (fst (formatTable pre (Some cfs) kw)) = (if pre = [] then 0 else length pre + 2)"
proof -
  have a: "formatTable pre (Some cfs) kw
             = ((if pre \<noteq> [] then [join (get_colsep kw) (headings cfs), join (get_colsep kw) (underlines cfs)] else [])
                  @ map (data_line (get_colsep kw) cfs) pre, None)"
    using loop_well_formed [OF assms(1) assms(2), of "get_colsep kw" "get_defaultColWidth kw" 0]
    by (simp add: formatTable_def columnCount_nonempty [OF assms(1)])
  have b: "formatTable (pre @ bad # post) (Some cfs) kw
             = ((if pre \<noteq> [] then [join (get_colsep kw) (headings cfs), join (get_colsep kw) (underlines cfs)] else [])
                  @ map (data_line (get_colsep kw) cfs) pre,
                Some (Exception (row_message (length pre) (length bad) (int (length cfs)))))"
    using loop_malformed [OF assms, of "get_colsep kw" "get_defaultColWidth kw" 0 post]
    by (simp add: formatTable_def columnCount_nonempty [OF assms(1)])
  show ?thesis
    by (simp add: a b row_message_def)
qed

theorem formatTable_row_width_mismatch_witness:
  "[\<lparr>name = ''id'', width = 4\<rparr>, \<lparr>name = ''name'', width = 10\<rparr>] \<noteq> []
   \<and> length [PyInt 1, PyStr ''Ann''] = length [\<lparr>name = ''id'', width = 4\<rparr>, \<lparr>name = ''name'', width = 10\<rparr>]
   \<and> length [PyInt 2, PyStr ''Bob'', PyStr ''extra''] \<noteq> length [\<lparr>name = ''id'', width = 4\<rparr>, \<lparr>name = ''name'', width = 10\<rparr>]
   \<and> formatTable ([[PyInt 1, PyStr ''Ann'']] @ [PyInt 2, PyStr ''Bob'', PyStr ''extra''] # [[PyInt 3, PyStr ''Cy'']])
        (Some [\<lparr>name = ''id'', width = 4\<rparr>, \<lparr>name = ''name'', width = 10\<rparr>])
        \<lparr>kw_colsep = None, kw_defaultColWidth = None\<rparr>
       = (fst (formatTable [[PyInt 1, PyStr ''Ann'']]
                 (Some [\<lparr>name = ''id'', width = 4\<rparr>, \<lparr>name = ''name'', width = 10\<rparr>])
                 \<lparr>kw_colsep = None, kw_defaultColWidth = None\<rparr>),
          Some (Exception ''Row 1 contains 3 columns.  Expected 2 columns''))
   \<and> length (fst (formatTable [[PyInt 1, PyStr ''Ann'']]
                 (Some [\<lparr>name = ''id'', width = 4\<rparr>, \<lparr>name = ''name'', width = 10\<rparr>])
                 \<lparr>kw_colsep = None, kw_defaultColWidth = None\<rparr>)) = 3"
proof -
  have h1: "[\<lparr>name = ''id'', width = 4\<rparr>, \<lparr>name = ''name'', width = 10\<rparr>] \<noteq> []"
    by simp
  have h2: "\<forall>row \<in> set [[PyInt 1, PyStr ''Ann'']]. length row = length [\<lparr>name = ''id'', width = 4\<rparr>, \<lparr>name = ''name'', width = 10\<rparr>]"
    by simp
  have h3: "length [PyInt 2, PyStr ''Bob'', PyStr ''extra''] \<noteq> length [\<lparr>name = ''id'', width = 4\<rparr>, \<lparr>name = ''name'', width = 10\<rparr>]"
    by simp
  note t = formatTable_row_width_mismatch [OF h1 h2 h3, of "[[PyInt 3, PyStr ''Cy'']]"
      "\<lparr>kw_colsep = None, kw_defaultColWidth = None\<rparr>"]
  show ?thesis
    using h1 h2 h3 t by (simp add: str_int_def str_nat.simps)
qed

text \<open>
  C9. Under a non-empty list of column formats and rows that all have as many columns as
  there are formats, the generator yields, before the line of the first row, exactly two
  header lines: the names, each left-justified to the width of its column, joined by the
  separator, and the underlines, each \<open>width\<close> times the character \<open>-\<close>, joined by the
  same separator. Then comes one line for each row, each cell converted to text and
  left-justified to the width of its column; left-justifying never truncates (the text is
  a prefix of the cell, which is as long as the longer of the text and the width). So
  the number of lines is the number of rows plus two, and no exception ends the generator.
\<close>

theorem formatTable_header_then_rows:
  assumes "cfs \<noteq> []"
    and "rows \<noteq> []"
    and "\<forall>row \<in> set rows. length row = length cfs"
  shows "formatTable rows (Some cfs) kw
           = (join (get_colsep kw) (map (\<lambda>format. ljust (name format) (width format)) cfs)
              # join (get_colsep kw) (map (\<lambda>format. replicate (nat (width format)) CHR ''-'') cfs)
              # map (\<lambda>row. join (get_colsep kw)
                    (map2 (\<lambda>column format. ljust (str column) (width format)) row cfs)) rows,
              None)
         \<and> length (fst (formatTable rows (Some cfs) kw)) = length rows + 2
         \<and> (\<forall>s w. take (length s) (ljust s w) = s \<and> length (ljust s w) = max (length s) (nat w))"
proof -
  have a: "formatTable rows (Some cfs) kw
             = ([join (get_colsep kw) (headings cfs), join (get_colsep kw) (underlines cfs)]
                  @ map (data_line (get_colsep kw) cfs) rows, None)"
    using loop_well_formed [OF assms(1) assms(3), of "get_colsep kw" "get_defaultColWidth kw" 0] assms(2)
    by (simp add: formatTable_def columnCount_nonempty [OF assms(1)])
  have d: "data_line (get_colsep kw) cfs
             = (\<lambda>row. join (get_colsep kw) (map2 (\<lambda>column format. ljust (str column) (width format)) row cfs))"
    by (rule ext) (simp add: data_line_def)
  show ?thesis
    by (simp add: a d headings_def underlines_def ljust_length ljust_keeps)
qed

theorem formatTable_header_then_rows_witness:
  "[\<lparr>name = ''id'', width = 4\<rparr>, \<lparr>name = ''name'', width = 10\<rparr>] \<noteq> []
   \<and> [[PyInt 1, PyStr ''Ann''], [PyInt 2, PyStr ''Bob'']] \<noteq> []
   \<and> length [PyInt 1, PyStr ''Ann''] = length [\<lparr>name = ''id'', width = 4\<rparr>, \<lparr>name = ''name'', width = 10\<rparr>]
   \<and> length [PyInt 2, PyStr ''Bob''] = length [\<lparr>name = ''id'', width = 4\<rparr>, \<lparr>name = ''name'', width = 10\<rparr>]
   \<and> formatTable [[PyInt 1, PyStr ''Ann''], [PyInt 2, PyStr ''Bob'']]
        (Some [\<lparr>name = ''id'', width = 4\<rparr>, \<lparr>name = ''name'', width = 10\<rparr>])
        \<lparr>kw_colsep = None, kw_defaultColWidth = None\<rparr>
       = ([''id     name      '', ''----   ----------'', ''1      Ann       '', ''2      Bob       ''], None)
   \<and> length (fst (formatTable [[PyInt 1, PyStr ''Ann''], [PyInt 2, PyStr ''Bob'']]
        (Some [\<lparr>name = ''id'', width = 4\<rparr>, \<lparr>name = ''name'', width = 10\<rparr>])
        \<lparr>kw_colsep = None, kw_defaultColWidth = None\<rparr>)) = 4"
proof -
  have h1: "[\<lparr>name = ''id'', width = 4\<rparr>, \<lparr>name = ''name'', width = 10\<rparr>] \<noteq> []"
    by simp
  have h2: "[[PyInt 1, PyStr ''Ann''], [PyInt 2, PyStr ''Bob'']] \<noteq> []"
    by simp
  have h3: "\<forall>row \<in> set [[PyInt 1, PyStr ''Ann''], [PyInt 2, PyStr ''Bob'']].
        length row = length [\<lparr>name = ''id'', width = 4\<rparr>, \<lparr>name = ''name'', width = 10\<rparr>]"
    by simp
  note t = formatTable_header_then_rows [OF h1 h2 h3, of "\<lparr>kw_colsep = None, kw_defaultColWidth = None\<rparr>"]
  show ?thesis
    using h1 h2 h3 t
    by (simp add: get_colsep_def ljust_def str_int_def str_nat.simps numeral_eq_Suc)
qed


text \<open>
  C10. When the row source is empty the generator yields no line at all and ends without
  an exception, whatever the column formats are: the two header lines are yielded only
  inside the loop, at the first row.
\<close>

theorem formatTable_no_rows:
  "formatTable [] columnFormats kw = ([], None)"
  by (simp add: formatTable_def)

section \<open>Properties of the Roster\<close>

lemma same_conn: "conn r = Some c \<Longrightarrow> r\<lparr>conn := Some c\<rparr> = r"
  by (cases r) simp

lemma next_rowid_Max: "t \<noteq> [] \<Longrightarrow> next_rowid t = Max (fst ` set t) + 1"
proof -
  assume "t \<noteq> []"
  then obtain k ks where m: "map fst t = k # ks" by (cases t) auto
  have "fold max ks k = Max (set (k # ks))" by (rule Max.set_eq_fold [symmetric])
  also have "set (k # ks) = fst ` set t" using m by (metis set_map)
  finally show ?thesis by (simp add: next_rowid_def m)
qed

lemma next_rowid_greater: "row \<in> set t \<Longrightarrow> fst row < next_rowid t"
proof -
  assume a: "row \<in> set t"
  then have ne: "t \<noteq> []" by auto
  have "fst row \<le> Max (fst ` set t)" using a by simp
  then show ?thesis by (simp add: next_rowid_Max [OF ne])
qed

lemma next_rowid_sqlite_int: "rowids_below_limit t \<Longrightarrow> sqlite_int (next_rowid t)"
proof (cases "t = []")
  case True
  then show ?thesis by (simp add: next_rowid_def sqlite_int_def min_rowid_def max_rowid_def)
next
  case False
  assume b: "rowids_below_limit t"
  have "Max (fst ` set t) \<in> fst ` set t" using False by (intro Max_in) auto
  then obtain row where r: "row \<in> set t" "fst row = Max (fst ` set t)" by auto
  then have "min_rowid \<le> Max (fst ` set t) \<and> Max (fst ` set t) < max_rowid"
    using b by (auto simp: rowids_below_limit_def)
  then show ?thesis by (simp add: next_rowid_Max [OF False] sqlite_int_def)
qed

lemma map_of_update_same: "map_of (AList.update k v al) k = Some v"
  by (simp add: update_conv')

lemma get_in_session:
  assumes "conn r = Some c" "is_open c" "map_of (view c) ''members'' = Some t" "sqlite_int k"
  shows "Roster_get r k
           = Inr (case filter (\<lambda>row. fst row = k) t of [] \<Rightarrow> None | row # _ \<Rightarrow> Some (Roster_buildMember row), r)"
  using assms
  by (cases "filter (\<lambda>row. fst row = k) t") (simp_all add: Roster_get_def select_member_def same_conn)

lemma list_in_session:
  assumes "conn r = Some c" "is_open c" "map_of (view c) ''members'' = Some t"
  shows "Roster_list r = Inr (map Roster_buildMember (sort_key fst t), r)"
  using assms by (simp add: Roster_list_def select_members_def same_conn)

lemma add_in_session:
  assumes "conn r = Some c" "is_open c" "map_of (view c) ''members'' = Some t"
  shows "Roster_add r m
           = Inr (None, r\<lparr>conn := Some (c\<lparr>db_file := AList.update ''members''
                   (t @ [(next_rowid t, first m, last_m m, introducedDate m)]) (view c),
                 pending := None\<rparr>)\<rparr>)"
  using assms by (simp add: Roster_add_def insert_member_def commit_def)

lemma update_in_session:
  assumes "conn r = Some c" "is_open c" "map_of (view c) ''members'' = Some t"
    and "rowid m = None \<or> (\<exists>k. rowid m = Some k \<and> sqlite_int k)"
  shows "Roster_update r m
           = Inr (None, r\<lparr>conn := Some (c\<lparr>pending := Some (AList.update ''members''
                   (map (\<lambda>row. if Some (fst row) = rowid m then (fst row, first m, last_m m, introducedDate m) else row) t)
                   (view c))\<rparr>)\<rparr>)"
  using assms by (auto simp add: Roster_update_def update_member_def)

lemma enter_session:
  "\<exists>c t. Roster_enter fs (Roster_init p) = Inr \<lparr>dbFilePath = p, conn = Some c\<rparr>
      \<and> is_open c \<and> pending c = None \<and> map_of (db_file c) ''members'' = Some t
      \<and> (\<forall>db. map_of fs p = Some db \<and> map_of db ''members'' \<noteq> None \<longrightarrow> db_file c = db)
      \<and> (map_of fs p = None \<longrightarrow> db_file c = [(''members'', [])])"
proof -
  define db where "db = (case map_of fs p of None \<Rightarrow> [] | Some d \<Rightarrow> d)"
  show ?thesis
  proof (cases "map_of db ''members''")
    case None
    then have "''members'' \<notin> fst ` set db" by (simp add: map_of_eq_None_iff)
    then have f: "filter (\<lambda>tbl_name. tbl_name = ''members'') (map fst db) = []"
      by (force simp: filter_empty_conv)
    have m: "map_of (db @ [(''members'', [])]) ''members'' = Some []"
      using None by (simp add: map_add_def)
    show ?thesis using None f m
      by (auto simp: Roster_enter_def Roster_init_def Roster_createTables_def connect_def
          select_master_def create_members_def view_def db_def split: option.splits)
  next
    case (Some t)
    then have "''members'' \<in> fst ` set db" by (metis map_of_eq_None_iff option.distinct(1))
    then have f: "filter (\<lambda>tbl_name. tbl_name = ''members'') (map fst db) \<noteq> []"
      by (force simp: filter_empty_conv)
    show ?thesis using Some f
      by (auto simp: Roster_enter_def Roster_init_def Roster_createTables_def connect_def
          select_master_def view_def db_def split: option.splits)
  qed
qed

lemma filter_new_row:
  "filter (\<lambda>row. fst row = next_rowid t) (t @ [(next_rowid t, f, l, d)]) = [(next_rowid t, f, l, d)]"
proof -
  have "filter (\<lambda>row. fst row = next_rowid t) t = []"
    using next_rowid_greater [of _ t] by (force simp: filter_empty_conv)
  then show ?thesis by simp
qed

lemma buildMember_rowid: "rowid (Roster_buildMember row) = Some (fst row)"
  by (cases row) (simp add: Roster_buildMember_def)

lemma sorted_list_ids: "sorted (map (\<lambda>m. the (rowid m)) (map Roster_buildMember (sort_key fst t)))"
proof -
  have "(\<lambda>m. the (rowid m)) \<circ> Roster_buildMember = fst"
    by (rule ext) (simp add: buildMember_rowid)
  then show ?thesis by simp
qed

lemma list_ids_set: "None \<notin> rowid ` set (map Roster_buildMember rows)"
  by (auto simp: buildMember_rowid)

lemma map_no_match:
  "k \<notin> Some ` fst ` set t \<Longrightarrow>
     map (\<lambda>row. if Some (fst row) = k then (fst row, f, l, d) else row) t = t"
  by (induction t) auto

lemma first_match_after_update:
  "k \<in> fst ` set t \<Longrightarrow>
     (case filter (\<lambda>row. fst row = k)
        (map (\<lambda>row. if Some (fst row) = Some k then (fst row, f, l, d) else row) t) of
        [] \<Rightarrow> None | row # _ \<Rightarrow> Some (Roster_buildMember row))
       = Some \<lparr>first = f, last_m = l, rowid = Some k, introducedDate = d\<rparr>"
  by (induction t) (auto simp: Roster_buildMember_def)

lemma first_match:
  "k \<in> fst ` set t \<Longrightarrow>
     \<exists>row \<in> set t. fst row = k \<and>
       (case filter (\<lambda>row. fst row = k) t of [] \<Rightarrow> None | row # _ \<Rightarrow> Some (Roster_buildMember row))
         = Some (Roster_buildMember row)"
proof -
  assume "k \<in> fst ` set t"
  then have ne: "filter (\<lambda>row. fst row = k) t \<noteq> []"
    by (force simp: filter_empty_conv)
  then obtain row rest where f: "filter (\<lambda>row. fst row = k) t = row # rest"
    by (cases "filter (\<lambda>row. fst row = k) t") auto
  then have "row \<in> set (filter (\<lambda>row. fst row = k) t)" by simp
  then have "row \<in> set t" "fst row = k" by simp_all
  then show ?thesis using f by auto
qed

lemma no_match:
  "k \<notin> fst ` set t \<Longrightarrow> filter (\<lambda>row. fst row = k) t = []"
  by (force simp: filter_empty_conv)

lemmas roster_defs =
  Roster_enter_def Roster_init_def Roster_createTables_def Roster_exit_def Roster_list_def
  Roster_add_def Roster_get_def Roster_update_def Roster_buildMember_def disk_def
  connect_def commit_def close_def view_def select_master_def create_members_def
  select_members_def insert_member_def select_member_def update_member_def
  next_rowid_def rowids_below_limit_def sqlite_int_def min_rowid_def max_rowid_def

text \<open>
  C1. \<^verbatim>\<open>add\<close> has no \<^verbatim>\<open>return\<close> statement and does not assign to the member: on a
  fresh store, adding a member gives \<^verbatim>\<open>None\<close>, not a member with its id.
\<close>

theorem add_returns_none_counterexample:
  "Roster_enter [] (Roster_init ''roster.db'') = Inr \<lparr>dbFilePath = ''roster.db'', conn = Some \<lparr>db_file = [(''members'', [])], pending = None, is_open = True\<rparr>\<rparr>
   \<and> Roster_add \<lparr>dbFilePath = ''roster.db'', conn = Some \<lparr>db_file = [(''members'', [])], pending = None, is_open = True\<rparr>\<rparr> \<lparr>first = Some ''Ada'', last_m = Some ''Lovelace'', rowid = None, introducedDate = None\<rparr>
       = Inr (None, \<lparr>dbFilePath = ''roster.db'', conn = Some \<lparr>db_file = [(''members'', [(1, Some ''Ada'', Some ''Lovelace'', None)])], pending = None, is_open = True\<rparr>\<rparr>)"
  by (simp add: roster_defs)

text \<open>
  C1, as the code has it. In a session whose table holds rowids below the limit, \<^verbatim>\<open>add\<close>
  of a member with no id returns \<^verbatim>\<open>None\<close> and inserts a row under a rowid that no row had
  before: one more than the largest of the table, 1 in an empty table. \<^verbatim>\<open>get\<close> of that
  rowid gives a member with the first name, last name and introduced date of the member
  added, and that rowid; \<^verbatim>\<open>list\<close> after it includes that member, and is in ascending
  order of rowid (every member listed has one).
\<close>

theorem add_then_get_and_list:
  assumes "conn r = Some c" and "is_open c" and "map_of (view c) ''members'' = Some t"
    and "rowids_below_limit t" and "rowid m = None"
  shows "\<exists>r1 ms. Roster_add r m = Inr (None, r1)
           \<and> next_rowid t \<notin> fst ` set t
           \<and> Roster_get r1 (next_rowid t) = Inr (Some (m\<lparr>rowid := Some (next_rowid t)\<rparr>), r1)
           \<and> Roster_list r1 = Inr (ms, r1)
           \<and> m\<lparr>rowid := Some (next_rowid t)\<rparr> \<in> set ms
           \<and> None \<notin> rowid ` set ms
           \<and> sorted (map (\<lambda>m. the (rowid m)) ms)"
proof -
  let ?k = "next_rowid t"
  let ?t1 = "t @ [(?k, first m, last_m m, introducedDate m)]"
  let ?c1 = "c\<lparr>db_file := AList.update ''members'' ?t1 (view c), pending := None\<rparr>"
  let ?r1 = "r\<lparr>conn := Some ?c1\<rparr>"
  have a: "Roster_add r m = Inr (None, ?r1)"
    by (rule add_in_session [OF assms(1-3)])
  have s1: "conn ?r1 = Some ?c1" "is_open ?c1" "map_of (view ?c1) ''members'' = Some ?t1"
    using assms(2) by (simp_all add: view_def map_of_update_same)
  have fresh: "?k \<notin> fst ` set t"
    using next_rowid_greater [of _ t] by force
  have b: "Roster_buildMember (?k, first m, last_m m, introducedDate m) = m\<lparr>rowid := Some ?k\<rparr>"
    by (simp add: Roster_buildMember_def)
  have g: "Roster_get ?r1 ?k = Inr (Some (m\<lparr>rowid := Some ?k\<rparr>), ?r1)"
    using get_in_session [OF s1 next_rowid_sqlite_int [OF assms(4)]]
    by (simp only: filter_new_row list.case b)
  have l: "Roster_list ?r1 = Inr (map Roster_buildMember (sort_key fst ?t1), ?r1)"
    by (rule list_in_session [OF s1])
  have mem: "m\<lparr>rowid := Some ?k\<rparr> \<in> set (map Roster_buildMember (sort_key fst ?t1))"
    using b by simp
  show ?thesis
    using a fresh g l mem list_ids_set [of "sort_key fst ?t1"] sorted_list_ids [of ?t1] by blast
qed

theorem add_then_get_and_list_witness:
  "conn \<lparr>dbFilePath = ''roster.db'', conn = Some \<lparr>db_file = [(''members'', [(1, Some ''Ada'', Some ''Lovelace'', None)])], pending = None, is_open = True\<rparr>\<rparr> = Some \<lparr>db_file = [(''members'', [(1, Some ''Ada'', Some ''Lovelace'', None)])], pending = None, is_open = True\<rparr>
   \<and> is_open \<lparr>db_file = [(''members'', [(1, Some ''Ada'', Some ''Lovelace'', None)])], pending = None, is_open = True\<rparr>
   \<and> map_of (view \<lparr>db_file = [(''members'', [(1, Some ''Ada'', Some ''Lovelace'', None)])], pending = None, is_open = True\<rparr>) ''members'' = Some [(1, Some ''Ada'', Some ''Lovelace'', None)]
   \<and> rowids_below_limit [(1, Some ''Ada'', Some ''Lovelace'', None)]
   \<and> rowid \<lparr>first = Some ''Alan'', last_m = Some ''Turing'', rowid = None, introducedDate = None\<rparr> = None
   \<and> Roster_add \<lparr>dbFilePath = ''roster.db'', conn = Some \<lparr>db_file = [(''members'', [(1, Some ''Ada'', Some ''Lovelace'', None)])], pending = None, is_open = True\<rparr>\<rparr> \<lparr>first = Some ''Alan'', last_m = Some ''Turing'', rowid = None, introducedDate = None\<rparr> = Inr (None, \<lparr>dbFilePath = ''roster.db'', conn = Some \<lparr>db_file = [(''members'', [(1, Some ''Ada'', Some ''Lovelace'', None), (2, Some ''Alan'', Some ''Turing'', None)])], pending = None, is_open = True\<rparr>\<rparr>)
   \<and> Roster_get \<lparr>dbFilePath = ''roster.db'', conn = Some \<lparr>db_file = [(''members'', [(1, Some ''Ada'', Some ''Lovelace'', None), (2, Some ''Alan'', Some ''Turing'', None)])], pending = None, is_open = True\<rparr>\<rparr> 2 = Inr (Some \<lparr>first = Some ''Alan'', last_m = Some ''Turing'', rowid = Some 2, introducedDate = None\<rparr>, \<lparr>dbFilePath = ''roster.db'', conn = Some \<lparr>db_file = [(''members'', [(1, Some ''Ada'', Some ''Lovelace'', None), (2, Some ''Alan'', Some ''Turing'', None)])], pending = None, is_open = True\<rparr>\<rparr>)
   \<and> Roster_list \<lparr>dbFilePath = ''roster.db'', conn = Some \<lparr>db_file = [(''members'', [(1, Some ''Ada'', Some ''Lovelace'', None), (2, Some ''Alan'', Some ''Turing'', None)])], pending = None, is_open = True\<rparr>\<rparr> = Inr ([\<lparr>first = Some ''Ada'', last_m = Some ''Lovelace'', rowid = Some 1, introducedDate = None\<rparr>, \<lparr>first = Some ''Alan'', last_m = Some ''Turing'', rowid = Some 2, introducedDate = None\<rparr>], \<lparr>dbFilePath = ''roster.db'', conn = Some \<lparr>db_file = [(''members'', [(1, Some ''Ada'', Some ''Lovelace'', None), (2, Some ''Alan'', Some ''Turing'', None)])], pending = None, is_open = True\<rparr>\<rparr>)"
proof -
  have h1: "conn \<lparr>dbFilePath = ''roster.db'', conn = Some \<lparr>db_file = [(''members'', [(1, Some ''Ada'', Some ''Lovelace'', None)])], pending = None, is_open = True\<rparr>\<rparr> = Some \<lparr>db_file = [(''members'', [(1, Some ''Ada'', Some ''Lovelace'', None)])], pending = None, is_open = True\<rparr>"
    by simp
  have h2: "is_open \<lparr>db_file = [(''members'', [(1, Some ''Ada'', Some ''Lovelace'', None)])], pending = None, is_open = True\<rparr>"
    by simp
  have h3: "map_of (view \<lparr>db_file = [(''members'', [(1, Some ''Ada'', Some ''Lovelace'', None)])], pending = None, is_open = True\<rparr>) ''members'' = Some [(1, Some ''Ada'', Some ''Lovelace'', None)]"
    by (simp add: view_def)
  have h4: "rowids_below_limit [(1, Some ''Ada'', Some ''Lovelace'', None)]"
    by (simp add: rowids_below_limit_def min_rowid_def max_rowid_def)
  have h5: "rowid \<lparr>first = Some ''Alan'', last_m = Some ''Turing'', rowid = None, introducedDate = None\<rparr> = None"
    by simp
  have n: "next_rowid [(1, Some ''Ada'', Some ''Lovelace'', None)] = 2"
    by (simp add: next_rowid_def)
  from add_then_get_and_list [OF h1 h2 h3 h4 h5] obtain r1 ms where
    a: "Roster_add \<lparr>dbFilePath = ''roster.db'', conn = Some \<lparr>db_file = [(''members'', [(1, Some ''Ada'', Some ''Lovelace'', None)])], pending = None, is_open = True\<rparr>\<rparr> \<lparr>first = Some ''Alan'', last_m = Some ''Turing'', rowid = None, introducedDate = None\<rparr> = Inr (None, r1)"
    and g: "Roster_get r1 2 = Inr (Some \<lparr>first = Some ''Alan'', last_m = Some ''Turing'', rowid = Some 2, introducedDate = None\<rparr>, r1)"
    and l: "Roster_list r1 = Inr (ms, r1)"
    unfolding n by auto
  have r: "r1 = \<lparr>dbFilePath = ''roster.db'', conn = Some \<lparr>db_file = [(''members'', [(1, Some ''Ada'', Some ''Lovelace'', None), (2, Some ''Alan'', Some ''Turing'', None)])], pending = None, is_open = True\<rparr>\<rparr>"
    using a by (simp add: roster_defs)
  have ms: "Roster_list \<lparr>dbFilePath = ''roster.db'', conn = Some \<lparr>db_file = [(''members'', [(1, Some ''Ada'', Some ''Lovelace'', None), (2, Some ''Alan'', Some ''Turing'', None)])], pending = None, is_open = True\<rparr>\<rparr> = Inr ([\<lparr>first = Some ''Ada'', last_m = Some ''Lovelace'', rowid = Some 1, introducedDate = None\<rparr>, \<lparr>first = Some ''Alan'', last_m = Some ''Turing'', rowid = Some 2, introducedDate = None\<rparr>], \<lparr>dbFilePath = ''roster.db'', conn = Some \<lparr>db_file = [(''members'', [(1, Some ''Ada'', Some ''Lovelace'', None), (2, Some ''Alan'', Some ''Turing'', None)])], pending = None, is_open = True\<rparr>\<rparr>)"
    by (simp add: roster_defs)
  show ?thesis
    using h1 h2 h3 h4 h5 a g ms unfolding r by simp
qed

text \<open>
  C2. \<^verbatim>\<open>update\<close> runs its \<^verbatim>\<open>UPDATE\<close> statement and looks at nothing it gives back: on
  a fresh store, updating a member with the id 5, which no row has, ends normally, and the
  table is as empty as before.
\<close>

theorem update_stale_id_counterexample:
  "Roster_enter [] (Roster_init ''roster.db'') = Inr \<lparr>dbFilePath = ''roster.db'', conn = Some \<lparr>db_file = [(''members'', [])], pending = None, is_open = True\<rparr>\<rparr>
   \<and> Roster_update \<lparr>dbFilePath = ''roster.db'', conn = Some \<lparr>db_file = [(''members'', [])], pending = None, is_open = True\<rparr>\<rparr> \<lparr>first = Some ''Ada'', last_m = Some ''Lovelace'', rowid = Some 5, introducedDate = None\<rparr> = Inr (None, \<lparr>dbFilePath = ''roster.db'', conn = Some \<lparr>db_file = [(''members'', [])], pending = Some [(''members'', [])], is_open = True\<rparr>\<rparr>)
   \<and> Roster_list \<lparr>dbFilePath = ''roster.db'', conn = Some \<lparr>db_file = [(''members'', [])], pending = Some [(''members'', [])], is_open = True\<rparr>\<rparr> = Inr ([], \<lparr>dbFilePath = ''roster.db'', conn = Some \<lparr>db_file = [(''members'', [])], pending = Some [(''members'', [])], is_open = True\<rparr>\<rparr>)"
  by (simp add: roster_defs)

text \<open>
  C2, as the code has it. In a session, for a member whose id is unset or is a 64-bit
  integer, \<^verbatim>\<open>update\<close> raises nothing. Every row whose rowid is the id of the member
  gets the first name, last name and introduced date of the member and keeps its rowid;
  every other row stays as it is. So where no row has that id (or the id is unset), the
  table is unchanged. The change is made in the transaction of the connection; the
  committed content of the file is not touched by \<^verbatim>\<open>update\<close>.
\<close>

theorem update_overwrites_or_no_op:
  assumes "conn r = Some c" and "is_open c" and "map_of (view c) ''members'' = Some t"
    and "case rowid m of None \<Rightarrow> True | Some k \<Rightarrow> sqlite_int k"
  shows "\<exists>r1 c1. Roster_update r m = Inr (None, r1) \<and> conn r1 = Some c1 \<and> is_open c1
           \<and> db_file c1 = db_file c
           \<and> map_of (view c1) ''members''
               = Some (map (\<lambda>row. if Some (fst row) = rowid m
                                   then (fst row, first m, last_m m, introducedDate m) else row) t)
           \<and> (rowid m \<notin> Some ` fst ` set t \<longrightarrow> map_of (view c1) ''members'' = Some t)"
proof -
  let ?t1 = "map (\<lambda>row. if Some (fst row) = rowid m then (fst row, first m, last_m m, introducedDate m) else row) t"
  let ?c1 = "c\<lparr>pending := Some (AList.update ''members'' ?t1 (view c))\<rparr>"
  let ?r1 = "r\<lparr>conn := Some ?c1\<rparr>"
  have h: "rowid m = None \<or> (\<exists>k. rowid m = Some k \<and> sqlite_int k)"
    using assms(4) by (cases "rowid m") simp_all
  have u: "Roster_update r m = Inr (None, ?r1)"
    by (rule update_in_session [OF assms(1-3) h])
  have s1: "conn ?r1 = Some ?c1" "is_open ?c1" "db_file ?c1 = db_file c"
    "map_of (view ?c1) ''members'' = Some ?t1"
    using assms(2) by (simp_all add: view_def map_of_update_same)
  have n: "rowid m \<notin> Some ` fst ` set t \<longrightarrow> map_of (view ?c1) ''members'' = Some t"
    using s1(4) map_no_match [of "rowid m" t] by auto
  show ?thesis
    using u s1 n by blast
qed

theorem update_overwrites_or_no_op_witness:
  "conn \<lparr>dbFilePath = ''roster.db'', conn = Some \<lparr>db_file = [(''members'', [(1, Some ''Ada'', Some ''Lovelace'', None), (2, Some ''Alan'', Some ''Turing'', None)])], pending = None, is_open = True\<rparr>\<rparr> = Some \<lparr>db_file = [(''members'', [(1, Some ''Ada'', Some ''Lovelace'', None), (2, Some ''Alan'', Some ''Turing'', None)])], pending = None, is_open = True\<rparr>
   \<and> is_open \<lparr>db_file = [(''members'', [(1, Some ''Ada'', Some ''Lovelace'', None), (2, Some ''Alan'', Some ''Turing'', None)])], pending = None, is_open = True\<rparr>
   \<and> map_of (view \<lparr>db_file = [(''members'', [(1, Some ''Ada'', Some ''Lovelace'', None), (2, Some ''Alan'', Some ''Turing'', None)])], pending = None, is_open = True\<rparr>) ''members'' = Some [(1, Some ''Ada'', Some ''Lovelace'', None), (2, Some ''Alan'', Some ''Turing'', None)]
   \<and> (case rowid \<lparr>first = Some ''Grace'', last_m = Some ''Hopper'', rowid = Some 5, introducedDate = Some ''2024-05-01''\<rparr> of None \<Rightarrow> True | Some k \<Rightarrow> sqlite_int k)
   \<and> rowid \<lparr>first = Some ''Grace'', last_m = Some ''Hopper'', rowid = Some 5, introducedDate = Some ''2024-05-01''\<rparr> \<notin> Some ` fst ` set [(1, Some ''Ada'', Some ''Lovelace'', None), (2, Some ''Alan'', Some ''Turing'', None)]
   \<and> Roster_update \<lparr>dbFilePath = ''roster.db'', conn = Some \<lparr>db_file = [(''members'', [(1, Some ''Ada'', Some ''Lovelace'', None), (2, Some ''Alan'', Some ''Turing'', None)])], pending = None, is_open = True\<rparr>\<rparr> \<lparr>first = Some ''Grace'', last_m = Some ''Hopper'', rowid = Some 5, introducedDate = Some ''2024-05-01''\<rparr> = Inr (None, \<lparr>dbFilePath = ''roster.db'', conn = Some \<lparr>db_file = [(''members'', [(1, Some ''Ada'', Some ''Lovelace'', None), (2, Some ''Alan'', Some ''Turing'', None)])], pending = Some [(''members'', [(1, Some ''Ada'', Some ''Lovelace'', None), (2, Some ''Alan'', Some ''Turing'', None)])], is_open = True\<rparr>\<rparr>)
   \<and> map_of (view \<lparr>db_file = [(''members'', [(1, Some ''Ada'', Some ''Lovelace'', None), (2, Some ''Alan'', Some ''Turing'', None)])], pending = Some [(''members'', [(1, Some ''Ada'', Some ''Lovelace'', None), (2, Some ''Alan'', Some ''Turing'', None)])], is_open = True\<rparr>) ''members'' = Some [(1, Some ''Ada'', Some ''Lovelace'', None), (2, Some ''Alan'', Some ''Turing'', None)]"
proof -
  have h1: "conn \<lparr>dbFilePath = ''roster.db'', conn = Some \<lparr>db_file = [(''members'', [(1, Some ''Ada'', Some ''Lovelace'', None), (2, Some ''Alan'', Some ''Turing'', None)])], pending = None, is_open = True\<rparr>\<rparr> = Some \<lparr>db_file = [(''members'', [(1, Some ''Ada'', Some ''Lovelace'', None), (2, Some ''Alan'', Some ''Turing'', None)])], pending = None, is_open = True\<rparr>"
    by simp
  have h2: "is_open \<lparr>db_file = [(''members'', [(1, Some ''Ada'', Some ''Lovelace'', None), (2, Some ''Alan'', Some ''Turing'', None)])], pending = None, is_open = True\<rparr>"
    by simp
  have h3: "map_of (view \<lparr>db_file = [(''members'', [(1, Some ''Ada'', Some ''Lovelace'', None), (2, Some ''Alan'', Some ''Turing'', None)])], pending = None, is_open = True\<rparr>) ''members'' = Some [(1, Some ''Ada'', Some ''Lovelace'', None), (2, Some ''Alan'', Some ''Turing'', None)]"
    by (simp add: view_def)
  have h4: "case rowid \<lparr>first = Some ''Grace'', last_m = Some ''Hopper'', rowid = Some 5, introducedDate = Some ''2024-05-01''\<rparr> of None \<Rightarrow> True | Some k \<Rightarrow> sqlite_int k"
    by (simp add: sqlite_int_def min_rowid_def max_rowid_def)
  have h5: "rowid \<lparr>first = Some ''Grace'', last_m = Some ''Hopper'', rowid = Some 5, introducedDate = Some ''2024-05-01''\<rparr> \<notin> Some ` fst ` set [(1, Some ''Ada'', Some ''Lovelace'', None), (2, Some ''Alan'', Some ''Turing'', None)]"
    by simp
  from update_overwrites_or_no_op [OF h1 h2 h3 h4] h5 obtain r1 c1 where
    u: "Roster_update \<lparr>dbFilePath = ''roster.db'', conn = Some \<lparr>db_file = [(''members'', [(1, Some ''Ada'', Some ''Lovelace'', None), (2, Some ''Alan'', Some ''Turing'', None)])], pending = None, is_open = True\<rparr>\<rparr> \<lparr>first = Some ''Grace'', last_m = Some ''Hopper'', rowid = Some 5, introducedDate = Some ''2024-05-01''\<rparr> = Inr (None, r1)"
    and c: "conn r1 = Some c1"
    and v: "map_of (view c1) ''members'' = Some [(1, Some ''Ada'', Some ''Lovelace'', None), (2, Some ''Alan'', Some ''Turing'', None)]"
    by blast
  have r1: "r1 = \<lparr>dbFilePath = ''roster.db'', conn = Some \<lparr>db_file = [(''members'', [(1, Some ''Ada'', Some ''Lovelace'', None), (2, Some ''Alan'', Some ''Turing'', None)])], pending = Some [(''members'', [(1, Some ''Ada'', Some ''Lovelace'', None), (2, Some ''Alan'', Some ''Turing'', None)])], is_open = True\<rparr>\<rparr>"
    using u by (simp add: roster_defs)
  have c1: "c1 = \<lparr>db_file = [(''members'', [(1, Some ''Ada'', Some ''Lovelace'', None), (2, Some ''Alan'', Some ''Turing'', None)])], pending = Some [(''members'', [(1, Some ''Ada'', Some ''Lovelace'', None), (2, Some ''Alan'', Some ''Turing'', None)])], is_open = True\<rparr>"
    using c unfolding r1 by simp
  show ?thesis
    using h1 h2 h3 h4 h5 u v unfolding r1 c1 by simp
qed

text \<open>
  C3. \<^verbatim>\<open>add\<close> never reads the \<^verbatim>\<open>rowid\<close> of the member: on a fresh store, adding a
  member that carries the id 7 ends normally and inserts a row, under the rowid 1.
\<close>

theorem add_with_id_counterexample:
  "Roster_enter [] (Roster_init ''roster.db'') = Inr \<lparr>dbFilePath = ''roster.db'', conn = Some \<lparr>db_file = [(''members'', [])], pending = None, is_open = True\<rparr>\<rparr>
   \<and> Roster_add \<lparr>dbFilePath = ''roster.db'', conn = Some \<lparr>db_file = [(''members'', [])], pending = None, is_open = True\<rparr>\<rparr> \<lparr>first = Some ''Ada'', last_m = Some ''Lovelace'', rowid = Some 7, introducedDate = None\<rparr> = Inr (None, \<lparr>dbFilePath = ''roster.db'', conn = Some \<lparr>db_file = [(''members'', [(1, Some ''Ada'', Some ''Lovelace'', None)])], pending = None, is_open = True\<rparr>\<rparr>)
   \<and> Roster_list \<lparr>dbFilePath = ''roster.db'', conn = Some \<lparr>db_file = [(''members'', [(1, Some ''Ada'', Some ''Lovelace'', None)])], pending = None, is_open = True\<rparr>\<rparr> = Inr ([\<lparr>first = Some ''Ada'', last_m = Some ''Lovelace'', rowid = Some 1, introducedDate = None\<rparr>], \<lparr>dbFilePath = ''roster.db'', conn = Some \<lparr>db_file = [(''members'', [(1, Some ''Ada'', Some ''Lovelace'', None)])], pending = None, is_open = True\<rparr>\<rparr>)"
  by (simp add: roster_defs)

text \<open>
  C3, as the code has it. In a session whose table holds rowids below the limit, \<^verbatim>\<open>add\<close>
  of a member that already has an id raises nothing: it inserts the row of its first
  name, last name and introduced date under the next rowid of the table, exactly as it
  does for the same member without the id.
\<close>

theorem add_ignores_rowid:
  assumes "conn r = Some c" and "is_open c" and "map_of (view c) ''members'' = Some t"
    and "rowids_below_limit t" and "rowid m = Some k"
  shows "\<exists>r1 c1. Roster_add r m = Inr (None, r1) \<and> conn r1 = Some c1
           \<and> map_of (view c1) ''members''
               = Some (t @ [(next_rowid t, first m, last_m m, introducedDate m)])
           \<and> Roster_add r (m\<lparr>rowid := None\<rparr>) = Inr (None, r1)"
proof -
  let ?t1 = "t @ [(next_rowid t, first m, last_m m, introducedDate m)]"
  let ?c1 = "c\<lparr>db_file := AList.update ''members'' ?t1 (view c), pending := None\<rparr>"
  let ?r1 = "r\<lparr>conn := Some ?c1\<rparr>"
  have a: "Roster_add r m = Inr (None, ?r1)"
    by (rule add_in_session [OF assms(1-3)])
  have b: "Roster_add r (m\<lparr>rowid := None\<rparr>) = Inr (None, ?r1)"
    using add_in_session [OF assms(1-3), of "m\<lparr>rowid := None\<rparr>"] by simp
  have s1: "conn ?r1 = Some ?c1" "map_of (view ?c1) ''members'' = Some ?t1"
    by (simp_all add: view_def map_of_update_same)
  show ?thesis
    using a b s1 by blast
qed

theorem add_ignores_rowid_witness:
  "conn \<lparr>dbFilePath = ''roster.db'', conn = Some \<lparr>db_file = [(''members'', [])], pending = None, is_open = True\<rparr>\<rparr> = Some \<lparr>db_file = [(''members'', [])], pending = None, is_open = True\<rparr>
   \<and> is_open \<lparr>db_file = [(''members'', [])], pending = None, is_open = True\<rparr>
   \<and> map_of (view \<lparr>db_file = [(''members'', [])], pending = None, is_open = True\<rparr>) ''members'' = Some []
   \<and> rowids_below_limit []
   \<and> rowid \<lparr>first = Some ''Ada'', last_m = Some ''Lovelace'', rowid = Some 7, introducedDate = None\<rparr> = Some 7
   \<and> Roster_add \<lparr>dbFilePath = ''roster.db'', conn = Some \<lparr>db_file = [(''members'', [])], pending = None, is_open = True\<rparr>\<rparr> \<lparr>first = Some ''Ada'', last_m = Some ''Lovelace'', rowid = Some 7, introducedDate = None\<rparr> = Inr (None, \<lparr>dbFilePath = ''roster.db'', conn = Some \<lparr>db_file = [(''members'', [(1, Some ''Ada'', Some ''Lovelace'', None)])], pending = None, is_open = True\<rparr>\<rparr>)
   \<and> map_of (view \<lparr>db_file = [(''members'', [(1, Some ''Ada'', Some ''Lovelace'', None)])], pending = None, is_open = True\<rparr>) ''members'' = Some [(1, Some ''Ada'', Some ''Lovelace'', None)]"
proof -
  have h1: "conn \<lparr>dbFilePath = ''roster.db'', conn = Some \<lparr>db_file = [(''members'', [])], pending = None, is_open = True\<rparr>\<rparr> = Some \<lparr>db_file = [(''members'', [])], pending = None, is_open = True\<rparr>"
    by simp
  have h2: "is_open \<lparr>db_file = [(''members'', [])], pending = None, is_open = True\<rparr>"
    by simp
  have h3: "map_of (view \<lparr>db_file = [(''members'', [])], pending = None, is_open = True\<rparr>) ''members'' = Some []"
    by (simp add: view_def)
  have h4: "rowids_below_limit []"
    by (simp add: rowids_below_limit_def)
  have h5: "rowid \<lparr>first = Some ''Ada'', last_m = Some ''Lovelace'', rowid = Some 7, introducedDate = None\<rparr> = Some 7"
    by simp
  from add_ignores_rowid [OF h1 h2 h3 h4 h5] obtain r1 c1 where
    a: "Roster_add \<lparr>dbFilePath = ''roster.db'', conn = Some \<lparr>db_file = [(''members'', [])], pending = None, is_open = True\<rparr>\<rparr> \<lparr>first = Some ''Ada'', last_m = Some ''Lovelace'', rowid = Some 7, introducedDate = None\<rparr> = Inr (None, r1)"
    and c: "conn r1 = Some c1"
    and v: "map_of (view c1) ''members'' = Some ([] @ [(next_rowid [], first \<lparr>first = Some ''Ada'', last_m = Some ''Lovelace'', rowid = Some 7, introducedDate = None\<rparr>, last_m \<lparr>first = Some ''Ada'', last_m = Some ''Lovelace'', rowid = Some 7, introducedDate = None\<rparr>, introducedDate \<lparr>first = Some ''Ada'', last_m = Some ''Lovelace'', rowid = Some 7, introducedDate = None\<rparr>)])"
    by blast
  have r1: "r1 = \<lparr>dbFilePath = ''roster.db'', conn = Some \<lparr>db_file = [(''members'', [(1, Some ''Ada'', Some ''Lovelace'', None)])], pending = None, is_open = True\<rparr>\<rparr>"
    using a by (simp add: roster_defs)
  have c1: "c1 = \<lparr>db_file = [(''members'', [(1, Some ''Ada'', Some ''Lovelace'', None)])], pending = None, is_open = True\<rparr>"
    using c unfolding r1 by simp
  show ?thesis
    using h1 h2 h3 h4 h5 a v unfolding r1 c1 by (simp add: next_rowid_def)
qed

text \<open>
  C4. Not every positive integer is an id that \<^verbatim>\<open>get\<close> answers: it binds its argument
  to the statement, and the \<^verbatim>\<open>sqlite3\<close> module raises \<^verbatim>\<open>OverflowError\<close> for an integer
  above \<open>max_rowid\<close>. On a fresh store, at the id \<open>max_rowid + 1\<close>:
\<close>

theorem get_overflow_counterexample:
  "Roster_enter [] (Roster_init ''roster.db'') = Inr \<lparr>dbFilePath = ''roster.db'', conn = Some \<lparr>db_file = [(''members'', [])], pending = None, is_open = True\<rparr>\<rparr>
   \<and> (0::int) < 9223372036854775808
   \<and> Roster_get \<lparr>dbFilePath = ''roster.db'', conn = Some \<lparr>db_file = [(''members'', [])], pending = None, is_open = True\<rparr>\<rparr> 9223372036854775808 = Inl OverflowError"
  by (simp add: roster_defs)

text \<open>
  C4, as the code has it. In a session, for every id from 1 to \<open>max_rowid\<close>, \<^verbatim>\<open>get\<close>
  raises nothing and leaves the roster as it is. Where a row has that rowid it returns
  the member built from a row of that rowid; where none has, it returns \<^verbatim>\<open>None\<close>. On a
  store opened at a path with no file, it returns \<^verbatim>\<open>None\<close> for every such id.
\<close>

theorem get_found_or_absent:
  assumes "conn r = Some c" and "is_open c" and "map_of (view c) ''members'' = Some t"
    and "0 < k" and "k \<le> max_rowid"
  shows "(k \<in> fst ` set t \<longrightarrow>
            (\<exists>row \<in> set t. fst row = k \<and> Roster_get r k = Inr (Some (Roster_buildMember row), r)))
         \<and> (k \<notin> fst ` set t \<longrightarrow> Roster_get r k = Inr (None, r))
         \<and> (\<exists>found. Roster_get r k = Inr (found, r))
         \<and> (map_of fs p = None \<longrightarrow>
              (\<exists>r0. Roster_enter fs (Roster_init p) = Inr r0 \<and> Roster_get r0 k = Inr (None, r0)))"
proof -
  have k: "sqlite_int k"
    using assms(4,5) by (simp add: sqlite_int_def min_rowid_def)
  note g = get_in_session [OF assms(1-3) k]
  have a: "k \<in> fst ` set t \<longrightarrow>
            (\<exists>row \<in> set t. fst row = k \<and> Roster_get r k = Inr (Some (Roster_buildMember row), r))"
    using first_match [of k t] by (auto simp: g)
  have b: "k \<notin> fst ` set t \<longrightarrow> Roster_get r k = Inr (None, r)"
    by (simp add: g no_match)
  have c: "\<exists>found. Roster_get r k = Inr (found, r)"
    by (simp add: g)
  have d: "map_of fs p = None \<longrightarrow>
              (\<exists>r0. Roster_enter fs (Roster_init p) = Inr r0 \<and> Roster_get r0 k = Inr (None, r0))"
  proof
    assume fresh: "map_of fs p = None"
    from enter_session [of fs p] fresh obtain c0 where
      e: "Roster_enter fs (Roster_init p) = Inr \<lparr>dbFilePath = p, conn = Some c0\<rparr>"
      and o: "is_open c0" and pn: "pending c0 = None" and f: "db_file c0 = [(''members'', [])]"
      by auto
    have v: "map_of (view c0) ''members'' = Some []"
      by (simp add: view_def pn f)
    have "Roster_get \<lparr>dbFilePath = p, conn = Some c0\<rparr> k = Inr (None, \<lparr>dbFilePath = p, conn = Some c0\<rparr>)"
      using get_in_session [OF _ o v k, of "\<lparr>dbFilePath = p, conn = Some c0\<rparr>"] by simp
    with e show "\<exists>r0. Roster_enter fs (Roster_init p) = Inr r0 \<and> Roster_get r0 k = Inr (None, r0)"
      by blast
  qed
  show ?thesis
    using a b c d by blast
qed

theorem get_found_or_absent_witness:
  "conn \<lparr>dbFilePath = ''roster.db'', conn = Some \<lparr>db_file = [(''members'', [(1, Some ''Ada'', Some ''Lovelace'', None), (2, Some ''Alan'', Some ''Turing'', None)])], pending = None, is_open = True\<rparr>\<rparr> = Some \<lparr>db_file = [(''members'', [(1, Some ''Ada'', Some ''Lovelace'', None), (2, Some ''Alan'', Some ''Turing'', None)])], pending = None, is_open = True\<rparr>
   \<and> is_open \<lparr>db_file = [(''members'', [(1, Some ''Ada'', Some ''Lovelace'', None), (2, Some ''Alan'', Some ''Turing'', None)])], pending = None, is_open = True\<rparr>
   \<and> map_of (view \<lparr>db_file = [(''members'', [(1, Some ''Ada'', Some ''Lovelace'', None), (2, Some ''Alan'', Some ''Turing'', None)])], pending = None, is_open = True\<rparr>) ''members'' = Some [(1, Some ''Ada'', Some ''Lovelace'', None), (2, Some ''Alan'', Some ''Turing'', None)]
   \<and> (0::int) < 2 \<and> 2 \<le> max_rowid
   \<and> Roster_get \<lparr>dbFilePath = ''roster.db'', conn = Some \<lparr>db_file = [(''members'', [(1, Some ''Ada'', Some ''Lovelace'', None), (2, Some ''Alan'', Some ''Turing'', None)])], pending = None, is_open = True\<rparr>\<rparr> 2 = Inr (Some \<lparr>first = Some ''Alan'', last_m = Some ''Turing'', rowid = Some 2, introducedDate = None\<rparr>, \<lparr>dbFilePath = ''roster.db'', conn = Some \<lparr>db_file = [(''members'', [(1, Some ''Ada'', Some ''Lovelace'', None), (2, Some ''Alan'', Some ''Turing'', None)])], pending = None, is_open = True\<rparr>\<rparr>)
   \<and> map_of ([] :: filesystem) ''roster.db'' = None
   \<and> Roster_enter [] (Roster_init ''roster.db'') = Inr \<lparr>dbFilePath = ''roster.db'', conn = Some \<lparr>db_file = [(''members'', [])], pending = None, is_open = True\<rparr>\<rparr>
   \<and> Roster_get \<lparr>dbFilePath = ''roster.db'', conn = Some \<lparr>db_file = [(''members'', [])], pending = None, is_open = True\<rparr>\<rparr> 2 = Inr (None, \<lparr>dbFilePath = ''roster.db'', conn = Some \<lparr>db_file = [(''members'', [])], pending = None, is_open = True\<rparr>\<rparr>)"
proof -
  have h1: "conn \<lparr>dbFilePath = ''roster.db'', conn = Some \<lparr>db_file = [(''members'', [(1, Some ''Ada'', Some ''Lovelace'', None), (2, Some ''Alan'', Some ''Turing'', None)])], pending = None, is_open = True\<rparr>\<rparr> = Some \<lparr>db_file = [(''members'', [(1, Some ''Ada'', Some ''Lovelace'', None), (2, Some ''Alan'', Some ''Turing'', None)])], pending = None, is_open = True\<rparr>"
    by simp
  have h2: "is_open \<lparr>db_file = [(''members'', [(1, Some ''Ada'', Some ''Lovelace'', None), (2, Some ''Alan'', Some ''Turing'', None)])], pending = None, is_open = True\<rparr>"
    by simp
  have h3: "map_of (view \<lparr>db_file = [(''members'', [(1, Some ''Ada'', Some ''Lovelace'', None), (2, Some ''Alan'', Some ''Turing'', None)])], pending = None, is_open = True\<rparr>) ''members'' = Some [(1, Some ''Ada'', Some ''Lovelace'', None), (2, Some ''Alan'', Some ''Turing'', None)]"
    by (simp add: view_def)
  have h4: "(0::int) < 2"
    by simp
  have h5: "(2::int) \<le> max_rowid"
    by (simp add: max_rowid_def)
  have h6: "map_of ([] :: filesystem) ''roster.db'' = None"
    by simp
  note t = get_found_or_absent [OF h1 h2 h3 h4 h5, of "[]" "''roster.db''"]
  have in_t: "(2::int) \<in> fst ` set [(1, Some ''Ada'', Some ''Lovelace'', None), (2, Some ''Alan'', Some ''Turing'', None)]"
    by simp
  from t in_t obtain row where
    row: "row \<in> set [(1, Some ''Ada'', Some ''Lovelace'', None), (2, Some ''Alan'', Some ''Turing'', None)]" "fst row = 2"
    and g: "Roster_get \<lparr>dbFilePath = ''roster.db'', conn = Some \<lparr>db_file = [(''members'', [(1, Some ''Ada'', Some ''Lovelace'', None), (2, Some ''Alan'', Some ''Turing'', None)])], pending = None, is_open = True\<rparr>\<rparr> 2 = Inr (Some (Roster_buildMember row), \<lparr>dbFilePath = ''roster.db'', conn = Some \<lparr>db_file = [(''members'', [(1, Some ''Ada'', Some ''Lovelace'', None), (2, Some ''Alan'', Some ''Turing'', None)])], pending = None, is_open = True\<rparr>\<rparr>)"
    by blast
  have "row = (2, Some ''Alan'', Some ''Turing'', None)"
    using row by auto
  then have g2: "Roster_get \<lparr>dbFilePath = ''roster.db'', conn = Some \<lparr>db_file = [(''members'', [(1, Some ''Ada'', Some ''Lovelace'', None), (2, Some ''Alan'', Some ''Turing'', None)])], pending = None, is_open = True\<rparr>\<rparr> 2 = Inr (Some \<lparr>first = Some ''Alan'', last_m = Some ''Turing'', rowid = Some 2, introducedDate = None\<rparr>, \<lparr>dbFilePath = ''roster.db'', conn = Some \<lparr>db_file = [(''members'', [(1, Some ''Ada'', Some ''Lovelace'', None), (2, Some ''Alan'', Some ''Turing'', None)])], pending = None, is_open = True\<rparr>\<rparr>)"
    using g by (simp add: Roster_buildMember_def)
  from t h6 obtain r0 where
    e: "Roster_enter [] (Roster_init ''roster.db'') = Inr r0"
    and g0: "Roster_get r0 2 = Inr (None, r0)"
    by blast
  have r0: "r0 = \<lparr>dbFilePath = ''roster.db'', conn = Some \<lparr>db_file = [(''members'', [])], pending = None, is_open = True\<rparr>\<rparr>"
    using e by (simp add: roster_defs)
  show ?thesis
    using h1 h2 h3 h4 h5 h6 g2 e g0 unfolding r0 by simp
qed

text \<open>
  C5. In a session, for a stored rowid \<open>k\<close> and a member with that id and any first name,
  last name and introduced date, \<^verbatim>\<open>update\<close> of the member and then \<^verbatim>\<open>get\<close> of \<open>k\<close> gives
  a member with exactly those three fields, and the id \<open>k\<close>.
\<close>

theorem update_then_get:
  assumes "conn r = Some c" and "is_open c" and "map_of (view c) ''members'' = Some t"
    and "k \<in> fst ` set t" and "sqlite_int k" and "rowid m = Some k"
  shows "\<exists>r1. Roster_update r m = Inr (None, r1)
           \<and> Roster_get r1 k
               = Inr (Some \<lparr>first = first m, last_m = last_m m, rowid = Some k,
                             introducedDate = introducedDate m\<rparr>, r1)"
proof -
  let ?t1 = "map (\<lambda>row. if Some (fst row) = rowid m then (fst row, first m, last_m m, introducedDate m) else row) t"
  let ?c1 = "c\<lparr>pending := Some (AList.update ''members'' ?t1 (view c))\<rparr>"
  let ?r1 = "r\<lparr>conn := Some ?c1\<rparr>"
  have u: "Roster_update r m = Inr (None, ?r1)"
    using update_in_session [OF assms(1-3), of m] assms(5,6) by simp
  have s1: "conn ?r1 = Some ?c1" "is_open ?c1" "map_of (view ?c1) ''members'' = Some ?t1"
    using assms(2) by (simp_all add: view_def map_of_update_same)
  have g: "Roster_get ?r1 k
             = Inr (Some \<lparr>first = first m, last_m = last_m m, rowid = Some k,
                           introducedDate = introducedDate m\<rparr>, ?r1)"
    using get_in_session [OF s1 assms(5)] first_match_after_update [OF assms(4)]
    by (simp add: assms(6))
  show ?thesis
    using u g by blast
qed

theorem update_then_get_witness:
  "conn \<lparr>dbFilePath = ''roster.db'', conn = Some \<lparr>db_file = [(''members'', [(1, Some ''Ada'', Some ''Lovelace'', None), (2, Some ''Alan'', Some ''Turing'', None)])], pending = None, is_open = True\<rparr>\<rparr> = Some \<lparr>db_file = [(''members'', [(1, Some ''Ada'', Some ''Lovelace'', None), (2, Some ''Alan'', Some ''Turing'', None)])], pending = None, is_open = True\<rparr>
   \<and> is_open \<lparr>db_file = [(''members'', [(1, Some ''Ada'', Some ''Lovelace'', None), (2, Some ''Alan'', Some ''Turing'', None)])], pending = None, is_open = True\<rparr>
   \<and> map_of (view \<lparr>db_file = [(''members'', [(1, Some ''Ada'', Some ''Lovelace'', None), (2, Some ''Alan'', Some ''Turing'', None)])], pending = None, is_open = True\<rparr>) ''members'' = Some [(1, Some ''Ada'', Some ''Lovelace'', None), (2, Some ''Alan'', Some ''Turing'', None)]
   \<and> (2::int) \<in> fst ` set [(1, Some ''Ada'', Some ''Lovelace'', None), (2, Some ''Alan'', Some ''Turing'', None)]
   \<and> sqlite_int 2
   \<and> rowid \<lparr>first = Some ''Grace'', last_m = Some ''Hopper'', rowid = Some 2, introducedDate = Some ''2024-05-01''\<rparr> = Some 2
   \<and> Roster_update \<lparr>dbFilePath = ''roster.db'', conn = Some \<lparr>db_file = [(''members'', [(1, Some ''Ada'', Some ''Lovelace'', None), (2, Some ''Alan'', Some ''Turing'', None)])], pending = None, is_open = True\<rparr>\<rparr> \<lparr>first = Some ''Grace'', last_m = Some ''Hopper'', rowid = Some 2, introducedDate = Some ''2024-05-01''\<rparr> = Inr (None, \<lparr>dbFilePath = ''roster.db'', conn = Some \<lparr>db_file = [(''members'', [(1, Some ''Ada'', Some ''Lovelace'', None), (2, Some ''Alan'', Some ''Turing'', None)])], pending = Some [(''members'', [(1, Some ''Ada'', Some ''Lovelace'', None), (2, Some ''Grace'', Some ''Hopper'', Some ''2024-05-01'')])], is_open = True\<rparr>\<rparr>)
   \<and> Roster_get \<lparr>dbFilePath = ''roster.db'', conn = Some \<lparr>db_file = [(''members'', [(1, Some ''Ada'', Some ''Lovelace'', None), (2, Some ''Alan'', Some ''Turing'', None)])], pending = Some [(''members'', [(1, Some ''Ada'', Some ''Lovelace'', None), (2, Some ''Grace'', Some ''Hopper'', Some ''2024-05-01'')])], is_open = True\<rparr>\<rparr> 2 = Inr (Some \<lparr>first = Some ''Grace'', last_m = Some ''Hopper'', rowid = Some 2, introducedDate = Some ''2024-05-01''\<rparr>, \<lparr>dbFilePath = ''roster.db'', conn = Some \<lparr>db_file = [(''members'', [(1, Some ''Ada'', Some ''Lovelace'', None), (2, Some ''Alan'', Some ''Turing'', None)])], pending = Some [(''members'', [(1, Some ''Ada'', Some ''Lovelace'', None), (2, Some ''Grace'', Some ''Hopper'', Some ''2024-05-01'')])], is_open = True\<rparr>\<rparr>)"
proof -
  have h1: "conn \<lparr>dbFilePath = ''roster.db'', conn = Some \<lparr>db_file = [(''members'', [(1, Some ''Ada'', Some ''Lovelace'', None), (2, Some ''Alan'', Some ''Turing'', None)])], pending = None, is_open = True\<rparr>\<rparr> = Some \<lparr>db_file = [(''members'', [(1, Some ''Ada'', Some ''Lovelace'', None), (2, Some ''Alan'', Some ''Turing'', None)])], pending = None, is_open = True\<rparr>"
    by simp
  have h2: "is_open \<lparr>db_file = [(''members'', [(1, Some ''Ada'', Some ''Lovelace'', None), (2, Some ''Alan'', Some ''Turing'', None)])], pending = None, is_open = True\<rparr>"
    by simp
  have h3: "map_of (view \<lparr>db_file = [(''members'', [(1, Some ''Ada'', Some ''Lovelace'', None), (2, Some ''Alan'', Some ''Turing'', None)])], pending = None, is_open = True\<rparr>) ''members'' = Some [(1, Some ''Ada'', Some ''Lovelace'', None), (2, Some ''Alan'', Some ''Turing'', None)]"
    by (simp add: view_def)
  have h4: "(2::int) \<in> fst ` set [(1, Some ''Ada'', Some ''Lovelace'', None), (2, Some ''Alan'', Some ''Turing'', None)]"
    by simp
  have h5: "sqlite_int 2"
    by (simp add: sqlite_int_def min_rowid_def max_rowid_def)
  have h6: "rowid \<lparr>first = Some ''Grace'', last_m = Some ''Hopper'', rowid = Some 2, introducedDate = Some ''2024-05-01''\<rparr> = Some 2"
    by simp
  from update_then_get [OF h1 h2 h3 h4 h5 h6] obtain r1 where
    u: "Roster_update \<lparr>dbFilePath = ''roster.db'', conn = Some \<lparr>db_file = [(''members'', [(1, Some ''Ada'', Some ''Lovelace'', None), (2, Some ''Alan'', Some ''Turing'', None)])], pending = None, is_open = True\<rparr>\<rparr> \<lparr>first = Some ''Grace'', last_m = Some ''Hopper'', rowid = Some 2, introducedDate = Some ''2024-05-01''\<rparr> = Inr (None, r1)"
    and g: "Roster_get r1 2 = Inr (Some \<lparr>first = Some ''Grace'', last_m = Some ''Hopper'', rowid = Some 2, introducedDate = Some ''2024-05-01''\<rparr>, r1)"
    by auto
  have r1: "r1 = \<lparr>dbFilePath = ''roster.db'', conn = Some \<lparr>db_file = [(''members'', [(1, Some ''Ada'', Some ''Lovelace'', None), (2, Some ''Alan'', Some ''Turing'', None)])], pending = Some [(''members'', [(1, Some ''Ada'', Some ''Lovelace'', None), (2, Some ''Grace'', Some ''Hopper'', Some ''2024-05-01'')])], is_open = True\<rparr>\<rparr>"
    using u by (simp add: roster_defs)
  show ?thesis
    using h1 h2 h3 h4 h5 h6 u g unfolding r1 by simp
qed

text \<open>
  C6. In a session, \<^verbatim>\<open>list\<close> returns the members of all the rows of the table (each row
  once, as a multiset), each with its id, in ascending order of id; on an empty table it returns the empty
  list; the roster after the call is the roster before it.
\<close>

theorem list_sorted_all_readonly:
  assumes "conn r = Some c" and "is_open c" and "map_of (view c) ''members'' = Some t"
  shows "\<exists>ms. Roster_list r = Inr (ms, r)
           \<and> mset ms = image_mset Roster_buildMember (mset t)
           \<and> None \<notin> rowid ` set ms
           \<and> sorted (map (\<lambda>m. the (rowid m)) ms)
           \<and> (t = [] \<longrightarrow> ms = [])"
proof -
  have l: "Roster_list r = Inr (map Roster_buildMember (sort_key fst t), r)"
    by (rule list_in_session [OF assms])
  have m: "mset (map Roster_buildMember (sort_key fst t)) = image_mset Roster_buildMember (mset t)"
    by simp
  have e: "t = [] \<longrightarrow> map Roster_buildMember (sort_key fst t) = []"
    by simp
  show ?thesis
    using l m e list_ids_set [of "sort_key fst t"] sorted_list_ids [of t] by blast
qed

theorem list_sorted_all_readonly_witness:
  "conn \<lparr>dbFilePath = ''roster.db'', conn = Some \<lparr>db_file = [(''members'', [(1, Some ''Ada'', Some ''Lovelace'', None), (2, Some ''Alan'', Some ''Turing'', None)])], pending = None, is_open = True\<rparr>\<rparr> = Some \<lparr>db_file = [(''members'', [(1, Some ''Ada'', Some ''Lovelace'', None), (2, Some ''Alan'', Some ''Turing'', None)])], pending = None, is_open = True\<rparr>
   \<and> is_open \<lparr>db_file = [(''members'', [(1, Some ''Ada'', Some ''Lovelace'', None), (2, Some ''Alan'', Some ''Turing'', None)])], pending = None, is_open = True\<rparr>
   \<and> map_of (view \<lparr>db_file = [(''members'', [(1, Some ''Ada'', Some ''Lovelace'', None), (2, Some ''Alan'', Some ''Turing'', None)])], pending = None, is_open = True\<rparr>) ''members'' = Some [(1, Some ''Ada'', Some ''Lovelace'', None), (2, Some ''Alan'', Some ''Turing'', None)]
   \<and> Roster_list \<lparr>dbFilePath = ''roster.db'', conn = Some \<lparr>db_file = [(''members'', [(1, Some ''Ada'', Some ''Lovelace'', None), (2, Some ''Alan'', Some ''Turing'', None)])], pending = None, is_open = True\<rparr>\<rparr> = Inr ([\<lparr>first = Some ''Ada'', last_m = Some ''Lovelace'', rowid = Some 1, introducedDate = None\<rparr>, \<lparr>first = Some ''Alan'', last_m = Some ''Turing'', rowid = Some 2, introducedDate = None\<rparr>], \<lparr>dbFilePath = ''roster.db'', conn = Some \<lparr>db_file = [(''members'', [(1, Some ''Ada'', Some ''Lovelace'', None), (2, Some ''Alan'', Some ''Turing'', None)])], pending = None, is_open = True\<rparr>\<rparr>)
   \<and> sorted (map (\<lambda>m. the (rowid m)) [\<lparr>first = Some ''Ada'', last_m = Some ''Lovelace'', rowid = Some 1, introducedDate = None\<rparr>, \<lparr>first = Some ''Alan'', last_m = Some ''Turing'', rowid = Some 2, introducedDate = None\<rparr>])"
proof -
  have h1: "conn \<lparr>dbFilePath = ''roster.db'', conn = Some \<lparr>db_file = [(''members'', [(1, Some ''Ada'', Some ''Lovelace'', None), (2, Some ''Alan'', Some ''Turing'', None)])], pending = None, is_open = True\<rparr>\<rparr> = Some \<lparr>db_file = [(''members'', [(1, Some ''Ada'', Some ''Lovelace'', None), (2, Some ''Alan'', Some ''Turing'', None)])], pending = None, is_open = True\<rparr>"
    by simp
  have h2: "is_open \<lparr>db_file = [(''members'', [(1, Some ''Ada'', Some ''Lovelace'', None), (2, Some ''Alan'', Some ''Turing'', None)])], pending = None, is_open = True\<rparr>"
    by simp
  have h3: "map_of (view \<lparr>db_file = [(''members'', [(1, Some ''Ada'', Some ''Lovelace'', None), (2, Some ''Alan'', Some ''Turing'', None)])], pending = None, is_open = True\<rparr>) ''members'' = Some [(1, Some ''Ada'', Some ''Lovelace'', None), (2, Some ''Alan'', Some ''Turing'', None)]"
    by (simp add: view_def)
  from list_sorted_all_readonly [OF h1 h2 h3] obtain ms where
    l: "Roster_list \<lparr>dbFilePath = ''roster.db'', conn = Some \<lparr>db_file = [(''members'', [(1, Some ''Ada'', Some ''Lovelace'', None), (2, Some ''Alan'', Some ''Turing'', None)])], pending = None, is_open = True\<rparr>\<rparr> = Inr (ms, \<lparr>dbFilePath = ''roster.db'', conn = Some \<lparr>db_file = [(''members'', [(1, Some ''Ada'', Some ''Lovelace'', None), (2, Some ''Alan'', Some ''Turing'', None)])], pending = None, is_open = True\<rparr>\<rparr>)"
    and s: "sorted (map (\<lambda>m. the (rowid m)) ms)"
    by blast
  have "Roster_list \<lparr>dbFilePath = ''roster.db'', conn = Some \<lparr>db_file = [(''members'', [(1, Some ''Ada'', Some ''Lovelace'', None), (2, Some ''Alan'', Some ''Turing'', None)])], pending = None, is_open = True\<rparr>\<rparr> = Inr ([\<lparr>first = Some ''Ada'', last_m = Some ''Lovelace'', rowid = Some 1, introducedDate = None\<rparr>, \<lparr>first = Some ''Alan'', last_m = Some ''Turing'', rowid = Some 2, introducedDate = None\<rparr>], \<lparr>dbFilePath = ''roster.db'', conn = Some \<lparr>db_file = [(''members'', [(1, Some ''Ada'', Some ''Lovelace'', None), (2, Some ''Alan'', Some ''Turing'', None)])], pending = None, is_open = True\<rparr>\<rparr>)"
    by (simp add: roster_defs)
  with l have ms: "ms = [\<lparr>first = Some ''Ada'', last_m = Some ''Lovelace'', rowid = Some 1, introducedDate = None\<rparr>, \<lparr>first = Some ''Alan'', last_m = Some ''Turing'', rowid = Some 2, introducedDate = None\<rparr>]"
    by simp
  show ?thesis
    using h1 h2 h3 l s unfolding ms by simp
qed

text \<open>
  C7. Entering a session looks the table up in the catalog by its name and creates it only
  when it is absent: at a path whose file already holds the table, the connection has the
  database of the file as it is, nothing recreated or emptied. So a member added in one
  session is there in the next one on the same path: after \<^verbatim>\<open>add\<close>, leaving the session
  and entering a new one on the disk as the first left it, \<^verbatim>\<open>list\<close> gives the same
  members as it does in the first session after the \<^verbatim>\<open>add\<close>, among them the member
  added and all that were there before.
\<close>

theorem reopen_keeps_members:
  assumes "Roster_enter fs (Roster_init p) = Inr r1" and "conn r1 = Some c1"
    and "map_of (view c1) ''members'' = Some t" and "rowids_below_limit t"
  shows "(\<forall>db. map_of fs p = Some db \<and> map_of db ''members'' \<noteq> None \<longrightarrow>
            c1 = \<lparr>db_file = db, pending = None, is_open = True\<rparr>)
         \<and> (\<exists>r2 r3 r4 ms. Roster_add r1 m = Inr (None, r2) \<and> Roster_exit r2 = Inr r3
               \<and> Roster_enter (disk fs r3) (Roster_init p) = Inr r4
               \<and> Roster_list r2 = Inr (ms, r2) \<and> Roster_list r4 = Inr (ms, r4)
               \<and> m\<lparr>rowid := Some (next_rowid t)\<rparr> \<in> set ms
               \<and> Roster_buildMember ` set t \<subseteq> set ms)"
proof -
  from enter_session [of fs p] obtain c where
    e: "Roster_enter fs (Roster_init p) = Inr \<lparr>dbFilePath = p, conn = Some c\<rparr>"
    and o: "is_open c" and pn: "pending c = None"
    and keep: "\<forall>db. map_of fs p = Some db \<and> map_of db ''members'' \<noteq> None \<longrightarrow> db_file c = db"
    by auto
  have r1: "r1 = \<lparr>dbFilePath = p, conn = Some c\<rparr>"
    using e assms(1) by simp
  have c1: "c1 = c"
    using r1 assms(2) by simp
  have shape: "c = \<lparr>db_file = db_file c, pending = None, is_open = True\<rparr>"
    using o pn by (cases c) simp
  have part1: "\<forall>db. map_of fs p = Some db \<and> map_of db ''members'' \<noteq> None \<longrightarrow>
            c1 = \<lparr>db_file = db, pending = None, is_open = True\<rparr>"
    using keep shape c1 by metis
  let ?t1 = "t @ [(next_rowid t, first m, last_m m, introducedDate m)]"
  let ?db = "AList.update ''members'' ?t1 (view c)"
  let ?c2 = "c\<lparr>db_file := ?db, pending := None\<rparr>"
  let ?r2 = "r1\<lparr>conn := Some ?c2\<rparr>"
  let ?r3 = "?r2\<lparr>conn := Some (close ?c2)\<rparr>"
  have v: "map_of (view c) ''members'' = Some t"
    using assms(3) c1 by simp
  have a: "Roster_add r1 m = Inr (None, ?r2)"
    using add_in_session [OF _ o v, of r1 m] r1 by simp
  have x: "Roster_exit ?r2 = Inr ?r3"
    by (simp add: Roster_exit_def)
  have d: "disk fs ?r3 = AList.update p ?db fs"
    using r1 by (simp add: disk_def close_def)
  have on_disk1: "map_of (disk fs ?r3) p = Some ?db"
    unfolding d by (rule map_of_update_same)
  have on_disk2: "map_of ?db ''members'' \<noteq> None"
    by (simp add: map_of_update_same)
  note on_disk = on_disk1 on_disk2
  from enter_session [of "disk fs ?r3" p] on_disk obtain c4 where
    e4: "Roster_enter (disk fs ?r3) (Roster_init p) = Inr \<lparr>dbFilePath = p, conn = Some c4\<rparr>"
    and o4: "is_open c4" and pn4: "pending c4 = None" and f4: "db_file c4 = ?db"
    by auto
  let ?r4 = "\<lparr>dbFilePath = p, conn = Some c4\<rparr>"
  let ?ms = "map Roster_buildMember (sort_key fst ?t1)"
  have v2: "map_of (view ?c2) ''members'' = Some ?t1"
    by (simp add: view_def map_of_update_same)
  have v4: "map_of (view c4) ''members'' = Some ?t1"
    by (simp add: view_def pn4 f4 map_of_update_same)
  have l2: "Roster_list ?r2 = Inr (?ms, ?r2)"
    using list_in_session [OF _ _ v2, of ?r2] o by simp
  have l4: "Roster_list ?r4 = Inr (?ms, ?r4)"
    using list_in_session [OF _ o4 v4, of ?r4] by simp
  have b: "Roster_buildMember (next_rowid t, first m, last_m m, introducedDate m)
             = m\<lparr>rowid := Some (next_rowid t)\<rparr>"
    by (simp add: Roster_buildMember_def)
  have mem: "m\<lparr>rowid := Some (next_rowid t)\<rparr> \<in> set ?ms"
    using b by simp
  have old: "Roster_buildMember ` set t \<subseteq> set ?ms"
    by auto
  have part2: "\<exists>r2 r3 r4 ms. Roster_add r1 m = Inr (None, r2) \<and> Roster_exit r2 = Inr r3
               \<and> Roster_enter (disk fs r3) (Roster_init p) = Inr r4
               \<and> Roster_list r2 = Inr (ms, r2) \<and> Roster_list r4 = Inr (ms, r4)
               \<and> m\<lparr>rowid := Some (next_rowid t)\<rparr> \<in> set ms
               \<and> Roster_buildMember ` set t \<subseteq> set ms"
    using a x e4 l2 l4 mem old by blast
  show ?thesis
    using part1 part2 by blast
qed

theorem reopen_keeps_members_witness:
  "Roster_enter [(''roster.db'', [(''members'', [(1, Some ''Ada'', Some ''Lovelace'', None)])])] (Roster_init ''roster.db'') = Inr \<lparr>dbFilePath = ''roster.db'', conn = Some \<lparr>db_file = [(''members'', [(1, Some ''Ada'', Some ''Lovelace'', None)])], pending = None, is_open = True\<rparr>\<rparr>
   \<and> conn \<lparr>dbFilePath = ''roster.db'', conn = Some \<lparr>db_file = [(''members'', [(1, Some ''Ada'', Some ''Lovelace'', None)])], pending = None, is_open = True\<rparr>\<rparr> = Some \<lparr>db_file = [(''members'', [(1, Some ''Ada'', Some ''Lovelace'', None)])], pending = None, is_open = True\<rparr>
   \<and> map_of (view \<lparr>db_file = [(''members'', [(1, Some ''Ada'', Some ''Lovelace'', None)])], pending = None, is_open = True\<rparr>) ''members'' = Some [(1, Some ''Ada'', Some ''Lovelace'', None)]
   \<and> rowids_below_limit [(1, Some ''Ada'', Some ''Lovelace'', None)]
   \<and> Roster_add \<lparr>dbFilePath = ''roster.db'', conn = Some \<lparr>db_file = [(''members'', [(1, Some ''Ada'', Some ''Lovelace'', None)])], pending = None, is_open = True\<rparr>\<rparr> \<lparr>first = Some ''Alan'', last_m = Some ''Turing'', rowid = None, introducedDate = None\<rparr> = Inr (None, \<lparr>dbFilePath = ''roster.db'', conn = Some \<lparr>db_file = [(''members'', [(1, Some ''Ada'', Some ''Lovelace'', None), (2, Some ''Alan'', Some ''Turing'', None)])], pending = None, is_open = True\<rparr>\<rparr>)
   \<and> Roster_exit \<lparr>dbFilePath = ''roster.db'', conn = Some \<lparr>db_file = [(''members'', [(1, Some ''Ada'', Some ''Lovelace'', None), (2, Some ''Alan'', Some ''Turing'', None)])], pending = None, is_open = True\<rparr>\<rparr> = Inr \<lparr>dbFilePath = ''roster.db'', conn = Some \<lparr>db_file = [(''members'', [(1, Some ''Ada'', Some ''Lovelace'', None), (2, Some ''Alan'', Some ''Turing'', None)])], pending = None, is_open = False\<rparr>\<rparr>
   \<and> disk [(''roster.db'', [(''members'', [(1, Some ''Ada'', Some ''Lovelace'', None)])])] \<lparr>dbFilePath = ''roster.db'', conn = Some \<lparr>db_file = [(''members'', [(1, Some ''Ada'', Some ''Lovelace'', None), (2, Some ''Alan'', Some ''Turing'', None)])], pending = None, is_open = False\<rparr>\<rparr> = [(''roster.db'', [(''members'', [(1, Some ''Ada'', Some ''Lovelace'', None), (2, Some ''Alan'', Some ''Turing'', None)])])]
   \<and> Roster_enter [(''roster.db'', [(''members'', [(1, Some ''Ada'', Some ''Lovelace'', None), (2, Some ''Alan'', Some ''Turing'', None)])])] (Roster_init ''roster.db'') = Inr \<lparr>dbFilePath = ''roster.db'', conn = Some \<lparr>db_file = [(''members'', [(1, Some ''Ada'', Some ''Lovelace'', None), (2, Some ''Alan'', Some ''Turing'', None)])], pending = None, is_open = True\<rparr>\<rparr>
   \<and> Roster_list \<lparr>dbFilePath = ''roster.db'', conn = Some \<lparr>db_file = [(''members'', [(1, Some ''Ada'', Some ''Lovelace'', None), (2, Some ''Alan'', Some ''Turing'', None)])], pending = None, is_open = True\<rparr>\<rparr> = Inr ([\<lparr>first = Some ''Ada'', last_m = Some ''Lovelace'', rowid = Some 1, introducedDate = None\<rparr>, \<lparr>first = Some ''Alan'', last_m = Some ''Turing'', rowid = Some 2, introducedDate = None\<rparr>], \<lparr>dbFilePath = ''roster.db'', conn = Some \<lparr>db_file = [(''members'', [(1, Some ''Ada'', Some ''Lovelace'', None), (2, Some ''Alan'', Some ''Turing'', None)])], pending = None, is_open = True\<rparr>\<rparr>)"
proof -
  have h1: "Roster_enter [(''roster.db'', [(''members'', [(1, Some ''Ada'', Some ''Lovelace'', None)])])] (Roster_init ''roster.db'') = Inr \<lparr>dbFilePath = ''roster.db'', conn = Some \<lparr>db_file = [(''members'', [(1, Some ''Ada'', Some ''Lovelace'', None)])], pending = None, is_open = True\<rparr>\<rparr>"
    by (simp add: roster_defs)
  have h2: "conn \<lparr>dbFilePath = ''roster.db'', conn = Some \<lparr>db_file = [(''members'', [(1, Some ''Ada'', Some ''Lovelace'', None)])], pending = None, is_open = True\<rparr>\<rparr> = Some \<lparr>db_file = [(''members'', [(1, Some ''Ada'', Some ''Lovelace'', None)])], pending = None, is_open = True\<rparr>"
    by simp
  have h3: "map_of (view \<lparr>db_file = [(''members'', [(1, Some ''Ada'', Some ''Lovelace'', None)])], pending = None, is_open = True\<rparr>) ''members'' = Some [(1, Some ''Ada'', Some ''Lovelace'', None)]"
    by (simp add: view_def)
  have h4: "rowids_below_limit [(1, Some ''Ada'', Some ''Lovelace'', None)]"
    by (simp add: rowids_below_limit_def min_rowid_def max_rowid_def)
  from reopen_keeps_members [OF h1 h2 h3 h4, of "\<lparr>first = Some ''Alan'', last_m = Some ''Turing'', rowid = None, introducedDate = None\<rparr>"] obtain r2 r3 r4 ms where
    a: "Roster_add \<lparr>dbFilePath = ''roster.db'', conn = Some \<lparr>db_file = [(''members'', [(1, Some ''Ada'', Some ''Lovelace'', None)])], pending = None, is_open = True\<rparr>\<rparr> \<lparr>first = Some ''Alan'', last_m = Some ''Turing'', rowid = None, introducedDate = None\<rparr> = Inr (None, r2)"
    and x: "Roster_exit r2 = Inr r3"
    and e: "Roster_enter (disk [(''roster.db'', [(''members'', [(1, Some ''Ada'', Some ''Lovelace'', None)])])] r3) (Roster_init ''roster.db'') = Inr r4"
    and l: "Roster_list r4 = Inr (ms, r4)"
    by blast
  have r2: "r2 = \<lparr>dbFilePath = ''roster.db'', conn = Some \<lparr>db_file = [(''members'', [(1, Some ''Ada'', Some ''Lovelace'', None), (2, Some ''Alan'', Some ''Turing'', None)])], pending = None, is_open = True\<rparr>\<rparr>"
    using a by (simp add: roster_defs)
  have r3: "r3 = \<lparr>dbFilePath = ''roster.db'', conn = Some \<lparr>db_file = [(''members'', [(1, Some ''Ada'', Some ''Lovelace'', None), (2, Some ''Alan'', Some ''Turing'', None)])], pending = None, is_open = False\<rparr>\<rparr>"
    using x unfolding r2 by (simp add: roster_defs)
  have d: "disk [(''roster.db'', [(''members'', [(1, Some ''Ada'', Some ''Lovelace'', None)])])] \<lparr>dbFilePath = ''roster.db'', conn = Some \<lparr>db_file = [(''members'', [(1, Some ''Ada'', Some ''Lovelace'', None), (2, Some ''Alan'', Some ''Turing'', None)])], pending = None, is_open = False\<rparr>\<rparr> = [(''roster.db'', [(''members'', [(1, Some ''Ada'', Some ''Lovelace'', None), (2, Some ''Alan'', Some ''Turing'', None)])])]"
    by (simp add: roster_defs)
  have r4: "r4 = \<lparr>dbFilePath = ''roster.db'', conn = Some \<lparr>db_file = [(''members'', [(1, Some ''Ada'', Some ''Lovelace'', None), (2, Some ''Alan'', Some ''Turing'', None)])], pending = None, is_open = True\<rparr>\<rparr>"
    using e unfolding r3 d by (simp add: roster_defs)
  have ms: "Roster_list \<lparr>dbFilePath = ''roster.db'', conn = Some \<lparr>db_file = [(''members'', [(1, Some ''Ada'', Some ''Lovelace'', None), (2, Some ''Alan'', Some ''Turing'', None)])], pending = None, is_open = True\<rparr>\<rparr> = Inr ([\<lparr>first = Some ''Ada'', last_m = Some ''Lovelace'', rowid = Some 1, introducedDate = None\<rparr>, \<lparr>first = Some ''Alan'', last_m = Some ''Turing'', rowid = Some 2, introducedDate = None\<rparr>], \<lparr>dbFilePath = ''roster.db'', conn = Some \<lparr>db_file = [(''members'', [(1, Some ''Ada'', Some ''Lovelace'', None), (2, Some ''Alan'', Some ''Turing'', None)])], pending = None, is_open = True\<rparr>\<rparr>)"
    by (simp add: roster_defs)
  show ?thesis
    using h1 h2 h3 h4 a x e d ms unfolding r2 r3 r4 by simp
qed

end
